theory Spec2Isabelle
  imports Complex_Main
begin

section \<open>Numbers, vectors and matrices\<close>

text \<open>
  The program computes with numpy float64 arrays.  A number is modelled as an exact real
  or the value \<open>NaN\<close>: arithmetic on reals is exact (no rounding, no overflow), and
  \<open>NaN\<close> propagates through every operation as it does in numpy.  A division by zero
  gives \<open>NaN\<close>: every division of the embedded code whose divisor is zero has a zero
  dividend as well (a vector divided by its own norm, the mean of an empty slice), which
  numpy evaluates to nan.
\<close>

datatype fl = Fin real | NaN

instantiation fl :: "{zero,one,plus,minus,uminus,times,inverse}"
begin

definition zero_fl :: fl where "zero_fl = Fin 0"

definition one_fl :: fl where "one_fl = Fin 1"

fun plus_fl :: "fl \<Rightarrow> fl \<Rightarrow> fl" where
  "plus_fl (Fin x) (Fin y) = Fin (x + y)"
| "plus_fl _ _ = NaN"

fun minus_fl :: "fl \<Rightarrow> fl \<Rightarrow> fl" where
  "minus_fl (Fin x) (Fin y) = Fin (x - y)"
| "minus_fl _ _ = NaN"

fun uminus_fl :: "fl \<Rightarrow> fl" where
  "uminus_fl (Fin x) = Fin (- x)"
| "uminus_fl NaN = NaN"

fun times_fl :: "fl \<Rightarrow> fl \<Rightarrow> fl" where
  "times_fl (Fin x) (Fin y) = Fin (x * y)"
| "times_fl _ _ = NaN"

fun divide_fl :: "fl \<Rightarrow> fl \<Rightarrow> fl" where
  "divide_fl (Fin x) (Fin y) = (if y = 0 then NaN else Fin (x / y))"
| "divide_fl _ _ = NaN"

fun inverse_fl :: "fl \<Rightarrow> fl" where
  "inverse_fl (Fin y) = (if y = 0 then NaN else Fin (1 / y))"
| "inverse_fl NaN = NaN"

instance ..

end

fun fl_sqrt :: "fl \<Rightarrow> fl" where
  "fl_sqrt (Fin x) = (if x < 0 then NaN else Fin (sqrt x))"
| "fl_sqrt NaN = NaN"

fun isnan :: "fl \<Rightarrow> bool" where
  "isnan NaN = True"
| "isnan (Fin x) = False"

text \<open>Arrays of shape (3,), (4,) and (4, 4); a matrix is the tuple of its four rows.\<close>

datatype vec3 = V3 fl fl fl

datatype 'a quad = V4 'a 'a 'a 'a

type_synonym vec4 = "fl quad"

datatype mat4 = M4 vec4 vec4 vec4 vec4

fun sub3 :: "vec3 \<Rightarrow> vec3 \<Rightarrow> vec3" where
  "sub3 (V3 a b c) (V3 x y z) = V3 (a - x) (b - y) (c - z)"

fun dot3 :: "vec3 \<Rightarrow> vec3 \<Rightarrow> fl" where
  "dot3 (V3 a b c) (V3 x y z) = a * x + b * y + c * z"

text \<open>\<open>np.cross\<close> on two arrays of shape (3,).\<close>

fun cross :: "vec3 \<Rightarrow> vec3 \<Rightarrow> vec3" where
  "cross (V3 a b c) (V3 x y z) = V3 (b * z - c * y) (c * x - a * z) (a * y - b * x)"

text \<open>\<open>np.linalg.norm\<close> on an array of shape (3,).\<close>

definition norm3 :: "vec3 \<Rightarrow> fl" where
  "norm3 v = fl_sqrt (dot3 v v)"

text \<open>\<open>v / s\<close> for an array \<open>v\<close> of shape (3,) and a scalar \<open>s\<close>.\<close>

fun div3 :: "vec3 \<Rightarrow> fl \<Rightarrow> vec3" where
  "div3 (V3 a b c) s = V3 (a / s) (b / s) (c / s)"

fun dot4 :: "vec4 \<Rightarrow> vec4 \<Rightarrow> fl" where
  "dot4 (V4 a b c d) (V4 x y z w) = a * x + b * y + c * z + d * w"

definition zeros44 :: mat4 where
  "zeros44 = M4 (V4 0 0 0 0) (V4 0 0 0 0) (V4 0 0 0 0) (V4 0 0 0 0)"

definition identity4 :: mat4 where
  "identity4 = M4 (V4 1 0 0 0) (V4 0 1 0 0) (V4 0 0 1 0) (V4 0 0 0 1)"

text \<open>\<open>m.T\<close>.\<close>

fun mat_T :: "mat4 \<Rightarrow> mat4" where
  "mat_T (M4 (V4 a0 a1 a2 a3) (V4 b0 b1 b2 b3) (V4 c0 c1 c2 c3) (V4 d0 d1 d2 d3)) =
     M4 (V4 a0 b0 c0 d0) (V4 a1 b1 c1 d1) (V4 a2 b2 c2 d2) (V4 a3 b3 c3 d3)"

text \<open>\<open>m @ v\<close> for \<open>m\<close> of shape (4, 4) and \<open>v\<close> of shape (4,).\<close>

fun matvec :: "mat4 \<Rightarrow> vec4 \<Rightarrow> vec4" where
  "matvec (M4 r0 r1 r2 r3) v = V4 (dot4 r0 v) (dot4 r1 v) (dot4 r2 v) (dot4 r3 v)"

text \<open>\<open>a @ b\<close> for two arrays of shape (4, 4): row \<open>i\<close> of the product is \<open>b.T @ a[i]\<close>.\<close>

fun matmul :: "mat4 \<Rightarrow> mat4 \<Rightarrow> mat4" where
  "matmul (M4 r0 r1 r2 r3) b =
     M4 (matvec (mat_T b) r0) (matvec (mat_T b) r1) (matvec (mat_T b) r2) (matvec (mat_T b) r3)"

text \<open>The entry at column \<open>j\<close> of a row; numpy raises for \<open>j > 3\<close>, which the code never
  asks for (the column is an axis value 0, 1, 2 or the literal 3).\<close>

fun set4 :: "nat \<Rightarrow> 'a \<Rightarrow> 'a quad \<Rightarrow> 'a quad" where
  "set4 j a (V4 x0 x1 x2 x3) =
     (if j = 0 then V4 a x1 x2 x3
      else if j = 1 then V4 x0 a x2 x3
      else if j = 2 then V4 x0 x1 a x3
      else if j = 3 then V4 x0 x1 x2 a
      else V4 x0 x1 x2 x3)"

fun get4 :: "nat \<Rightarrow> 'a quad \<Rightarrow> 'a" where
  "get4 j (V4 x0 x1 x2 x3) =
     (if j = 0 then x0 else if j = 1 then x1 else if j = 2 then x2 else x3)"

text \<open>\<open>m[:3, j] = v\<close> and \<open>m[:3, j]\<close>.\<close>

fun set_col :: "nat \<Rightarrow> vec3 \<Rightarrow> mat4 \<Rightarrow> mat4" where
  "set_col j (V3 a b c) (M4 r0 r1 r2 r3) = M4 (set4 j a r0) (set4 j b r1) (set4 j c r2) r3"

fun get_col :: "nat \<Rightarrow> mat4 \<Rightarrow> vec3" where
  "get_col j (M4 r0 r1 r2 r3) = V3 (get4 j r0) (get4 j r1) (get4 j r2)"

text \<open>\<open>m[3, 3] = a\<close>, \<open>m[3, :3] = 0\<close> and \<open>m[3, :3]\<close>.\<close>

fun set_33 :: "fl \<Rightarrow> mat4 \<Rightarrow> mat4" where
  "set_33 a (M4 r0 r1 r2 r3) = M4 r0 r1 r2 (set4 3 a r3)"

fun zero_row3 :: "mat4 \<Rightarrow> mat4" where
  "zero_row3 (M4 r0 r1 r2 (V4 d0 d1 d2 d3)) = M4 r0 r1 r2 (V4 0 0 0 d3)"

fun get_row3 :: "mat4 \<Rightarrow> vec3" where
  "get_row3 (M4 r0 r1 r2 (V4 d0 d1 d2 d3)) = V3 d0 d1 d2"

text \<open>\<open>-m[:3, :3] @ v\<close> for \<open>v\<close> of shape (3,): the negation binds tighter than \<open>@\<close>.\<close>

fun neg_block_matvec :: "mat4 \<Rightarrow> vec3 \<Rightarrow> vec3" where
  "neg_block_matvec (M4 (V4 a0 a1 a2 a3) (V4 b0 b1 b2 b3) (V4 c0 c1 c2 c3) r3) v =
     V3 (dot3 (V3 (- a0) (- a1) (- a2)) v)
        (dot3 (V3 (- b0) (- b1) (- b2)) v)
        (dot3 (V3 (- c0) (- c1) (- c2)) v)"

section \<open>The class RT (and SegmentCoordinateSystemReal)\<close>

text \<open>
  \<open>RT\<close> of \<open>model_creation.py\<close> holds a matrix \<open>rt\<close>, an optional reference \<open>parent_rt\<close>
  to another RT and the flag \<open>is_rt_local\<close>.  \<open>SegmentCoordinateSystemReal\<close> is the same
  class under the field names \<open>scs\<close>, \<open>parent_scs\<close>, \<open>is_rt_local\<close>; its methods \<open>copy\<close>,
  \<open>__str__\<close>, \<open>__matmul__\<close> and \<open>transpose\<close> are the same statements, so the definitions
  below embed both.
\<close>

datatype RT = RT (rt: mat4) (parent_rt: "RT option") (is_rt_local: bool)

text \<open>\<open>RT()\<close> with the defaults of \<open>__init__\<close>.\<close>

definition RT_default :: RT where
  "RT_default = RT identity4 None False"

text \<open>\<open>copy\<close>: a new object with a copy of the matrix and the same parent; the flag is
  not passed, so it takes the default of \<open>__init__\<close>.\<close>

definition RT_copy :: "RT \<Rightarrow> RT" where
  "RT_copy self = RT (rt self) (parent_rt self) False"

text \<open>\<open>__matmul__\<close>.\<close>

definition RT_matmul :: "RT \<Rightarrow> mat4 \<Rightarrow> mat4" where
  "RT_matmul self other = matmul (rt self) other"

definition RT_matvec :: "RT \<Rightarrow> vec4 \<Rightarrow> vec4" where
  "RT_matvec self other = matvec (rt self) other"

text \<open>The property \<open>transpose\<close>.  It works on the matrix of the copy, so \<open>self\<close> is left as
  it was.\<close>

definition RT_transpose :: "RT \<Rightarrow> RT" where
  "RT_transpose self =
     (let out = RT_copy self;
          m1 = mat_T (rt out);
          m2 = set_col 3 (neg_block_matvec m1 (get_row3 m1)) m1;
          m3 = zero_row3 m2
      in RT m3 (parent_rt out) (is_rt_local out))"

text \<open>\<open>__str__\<close>: the matrix bound to the local \<open>rt\<close> by the first four lines.  The
  conditional expression is read as Python parses it,
  \<open>(self.parent_rt.transpose @ self.rt) if self.parent_rt else np.identity(4)\<close>.
  The rest of the method reads the entries \<open>rt[0, 3]\<close>, \<open>rt[1, 3]\<close>, \<open>rt[2, 3]\<close> and three
  angles off this matrix and formats them with three decimals.\<close>

definition RT_str_matrix :: "RT \<Rightarrow> mat4" where
  "RT_str_matrix self =
     (if is_rt_local self then rt self
      else (case parent_rt self of
              Some p \<Rightarrow> RT_matmul (RT_transpose p) (rt self)
            | None \<Rightarrow> identity4))"

definition RT_str_translation :: "RT \<Rightarrow> vec3" where
  "RT_str_translation self = get_col 3 (RT_str_matrix self)"

subsection \<open>The arrays of an RT in memory\<close>

text \<open>
  \<open>transpose\<close> assigns into an array, so whether it leaves \<open>self\<close> alone depends on which
  arrays share their data.  A numpy array is a view on a buffer: \<open>copy(a)\<close> makes a new
  buffer with the content of \<open>a\<close>, \<open>a.T\<close> is a view on the buffer of \<open>a\<close> itself with the
  two axes swapped, and an assignment \<open>a[...] = ...\<close> writes into the buffer of \<open>a\<close>.  The
  memory holds the buffers, each a matrix, and the address of the next new buffer.
\<close>

record view =
  buffer :: nat
  transposed :: bool

record memory =
  cells :: "nat \<Rightarrow> mat4"
  next_free :: nat

text \<open>The matrix that a view shows, and the memory after the matrix that a view shows
  has been made \<open>m\<close>.\<close>

definition read_view :: "memory \<Rightarrow> view \<Rightarrow> mat4" where
  "read_view h v = (if transposed v then mat_T (cells h (buffer v)) else cells h (buffer v))"

definition write_view :: "memory \<Rightarrow> view \<Rightarrow> mat4 \<Rightarrow> memory" where
  "write_view h v m =
     h\<lparr>cells := (cells h)(buffer v := (if transposed v then mat_T m else m))\<rparr>"

text \<open>\<open>copy(a)\<close> and \<open>a.T\<close>.\<close>

definition copy_array :: "memory \<Rightarrow> view \<Rightarrow> view \<times> memory" where
  "copy_array h v =
     (\<lparr>buffer = next_free h, transposed = False\<rparr>,
      h\<lparr>cells := (cells h)(next_free h := read_view h v), next_free := Suc (next_free h)\<rparr>)"

definition array_T :: "view \<Rightarrow> view" where
  "array_T v = v\<lparr>transposed := \<not> transposed v\<rparr>"

text \<open>An RT whose field \<open>rt\<close> is a view, and \<open>transpose\<close> statement by statement:
  \<open>out = self.copy()\<close>, \<open>out.rt = out.rt.T\<close>, the assignment to \<open>out.rt[:3, 3]\<close> and the
  assignment to \<open>out.rt[3, :3]\<close>.\<close>

datatype RT_object =
  RT_object (rt_view: view) (parent_object: "RT_object option") (local_flag: bool)

definition transpose_in_memory :: "RT_object \<Rightarrow> memory \<Rightarrow> RT_object \<times> memory" where
  "transpose_in_memory self h =
     (case copy_array h (rt_view self) of (v1, h1) \<Rightarrow>
        (let v2 = array_T v1;
             h2 = write_view h1 v2
                    (set_col 3 (neg_block_matvec (read_view h1 v2) (get_row3 (read_view h1 v2)))
                       (read_view h1 v2));
             h3 = write_view h2 v2 (zero_row3 (read_view h2 v2))
         in (RT_object v2 (parent_object self) False, h3)))"

section \<open>Errors\<close>

text \<open>
  Every exception the embedded code raises, tagged by the place that raises it:
  \<^item> \<open>RuntimeError_ezc3d\<close>: \<open>RuntimeError("Ezc3d must be install ...")\<close>;
  \<^item> \<open>RuntimeError_markers_not_present ns\<close>:
    \<open>RuntimeError(f"The markers {from_markers} are not present in the c3d")\<close>;
  \<^item> \<open>ValueError_same_axis\<close>: \<open>ValueError("The two axes cannot be the same axis")\<close>;
  \<^item> \<open>ValueError_axis_to_keep\<close>:
    \<open>ValueError("Name of axis to keep should be one of the two axes")\<close>;
  \<^item> \<open>ValueError_label_not_in_list n\<close>: the \<open>ValueError\<close> of \<open>list.index\<close> in
    \<open>indices_in_c3d\<close>, for a name that is no label of the trial;
  \<^item> \<open>ValueError_parent_not_in_list n\<close>: the \<open>ValueError\<close> of \<open>list.index\<close> in
    \<open>generate_personalized\<close>, for a parent name that no assembled segment has;
  \<^item> \<open>ValueError_marker_not_in_list n\<close>: the \<open>ValueError\<close> of \<open>list.index\<close> in \<open>DeLeva\<close>;
  \<^item> \<open>IndexError\<close>: an index beyond the end of an array;
  \<^item> \<open>KeyError k\<close>: a key missing from a dict.
\<close>

datatype error =
    RuntimeError_ezc3d
  | RuntimeError_markers_not_present "string list"
  | ValueError_same_axis
  | ValueError_axis_to_keep
  | ValueError_label_not_in_list string
  | ValueError_parent_not_in_list string
  | ValueError_marker_not_in_list string
  | IndexError
  | KeyError string

text \<open>\<open>xs.index(x)\<close>: the position of the first occurrence, \<open>None\<close> where Python raises.\<close>

fun list_index :: "'a list \<Rightarrow> 'a \<Rightarrow> nat option" where
  "list_index [] x = None"
| "list_index (y # ys) x = (if y = x then Some 0 else map_option Suc (list_index ys x))"

text \<open>
  The module-level flag \<open>ezc3d_found\<close>.  The model is of the module loaded where
  \<open>import ezc3d\<close> succeeded, the only environment in which a trial \<open>c3d\<close> exists.
\<close>

definition ezc3d_found :: bool where
  "ezc3d_found = True"

section \<open>Marker and Axis\<close>

record Marker =
  name :: string
  parent_name :: string
  position :: vec3
  is_technical :: bool
  is_anatomical :: bool

text \<open>A trial: the labels and units of \<open>c3d["parameters"]["POINT"]\<close> and the array
  \<open>c3d["data"]["points"]\<close> of shape (4, N, F), kept as \<open>points ! i ! f\<close>, the sample
  \<open>points[:, i, f]\<close> of marker \<open>i\<close> at frame \<open>f\<close>.\<close>

record c3d =
  LABELS :: "string list"
  UNITS :: "string list"
  points :: "vec4 list list"

text \<open>\<open>np.mean\<close> and \<open>np.nanmean\<close> along one axis; the mean of nothing is nan.\<close>

definition mean :: "fl list \<Rightarrow> fl" where
  "mean xs = foldr (+) xs 0 / Fin (real (length xs))"

definition nanmean :: "fl list \<Rightarrow> fl" where
  "nanmean xs = mean (filter (\<lambda>x. \<not> isnan x) xs)"

fun indices_in_c3d :: "c3d \<Rightarrow> string list \<Rightarrow> error + nat list" where
  "indices_in_c3d c [] = Inr []"
| "indices_in_c3d c (n # ns) =
     (case list_index (LABELS c) n of
        None \<Rightarrow> Inl (ValueError_label_not_in_list n)
      | Some i \<Rightarrow>
          (case indices_in_c3d c ns of
             Inl e \<Rightarrow> Inl e
           | Inr js \<Rightarrow> Inr (i # js)))"

definition to_meter :: "c3d \<Rightarrow> vec4 \<Rightarrow> vec4" where
  "to_meter c data =
     (let units = UNITS c;
          factor = (if length units > 0 \<and> units ! 0 = ''mm'' then Fin 1000 else Fin 1)
      in case data of V4 x y z w \<Rightarrow> set4 3 1 (V4 (x / factor) (y / factor) (z / factor) (w / factor)))"

text \<open>\<open>np.mean(np.nanmean(points[:, index, :], axis=2), axis=1)\<close>: for each of the four
  rows, the mean over the selected markers of the nan-ignoring mean over the frames.\<close>

definition mean_of_markers :: "vec4 list list \<Rightarrow> vec4" where
  "mean_of_markers sel =
     V4 (mean (map (\<lambda>samples. nanmean (map (get4 0) samples)) sel))
        (mean (map (\<lambda>samples. nanmean (map (get4 1) samples)) sel))
        (mean (map (\<lambda>samples. nanmean (map (get4 2) samples)) sel))
        (mean (map (\<lambda>samples. nanmean (map (get4 3) samples)) sel))"

fun isnan_any :: "vec4 \<Rightarrow> bool" where
  "isnan_any (V4 x y z w) = (isnan x \<or> isnan y \<or> isnan z \<or> isnan w)"

fun first3 :: "vec4 \<Rightarrow> vec3" where
  "first3 (V4 x y z w) = V3 x y z"

text \<open>\<open>Marker.from_data\<close>.  \<open>from_markers\<close> is the tuple of names (a single \<open>str\<close> is
  made the tuple of length one by the first lines).\<close>

definition Marker_from_data ::
  "c3d \<Rightarrow> string \<Rightarrow> string list \<Rightarrow> string \<Rightarrow> RT option \<Rightarrow> bool \<Rightarrow> bool \<Rightarrow> error + Marker" where
  "Marker_from_data c nm from_markers parent parent_RT technical anatomical =
     (if \<not> ezc3d_found then Inl RuntimeError_ezc3d
      else case indices_in_c3d c from_markers of
        Inl e \<Rightarrow> Inl e
      | Inr index \<Rightarrow>
          if list_ex (\<lambda>i. i \<ge> length (points c)) index then Inl IndexError
          else
            let pos = to_meter c (mean_of_markers (map (\<lambda>i. points c ! i) index))
            in if isnan_any pos then Inl (RuntimeError_markers_not_present from_markers)
               else
                 let pos' = (case parent_RT of
                               Some p \<Rightarrow> RT_matvec (RT_transpose p) pos
                             | None \<Rightarrow> matvec identity4 pos)
                 in Inr \<lparr>name = nm, parent_name = parent, position = first3 pos',
                          is_technical = technical, is_anatomical = anatomical\<rparr>)"

text \<open>\<open>Axis.Name\<close> with its values 0, 1, 2.  The names are of this enumeration, so the
  last \<open>else\<close> of the chain in \<open>from_markers\<close> (a first axis that is none of the three) has
  no input.\<close>

datatype Name = X | Y | Z

fun Name_value :: "Name \<Rightarrow> nat" where
  "Name_value X = 0"
| "Name_value Y = 1"
| "Name_value Z = 2"

record Axis =
  name :: Name
  start_point :: Marker
  end_point :: Marker

text \<open>\<open>Axis.axis\<close>.\<close>

definition Axis_axis :: "Axis \<Rightarrow> error + vec3" where
  "Axis_axis self =
     (if \<not> ezc3d_found then Inl RuntimeError_ezc3d
      else Inr (sub3 (position (end_point self)) (position (start_point self))))"

text \<open>The chain of \<open>if\<close>/\<open>elif\<close> of \<open>from_markers\<close> that finds the third axis name and
  puts the two axes in the order of a right-handed frame: the result is
  \<open>(first_axis, second_axis, third_axis_name)\<close> after the swaps.\<close>

definition reorder_axes :: "Axis \<Rightarrow> Axis \<Rightarrow> Axis \<times> Axis \<times> Name" where
  "reorder_axes first_axis second_axis =
     (case Axis.name first_axis of
        X \<Rightarrow>
          (let third_axis_name = (if Axis.name second_axis = Z then Y else Z)
           in if Axis.name second_axis = Z then (second_axis, first_axis, third_axis_name)
              else (first_axis, second_axis, third_axis_name))
      | Y \<Rightarrow>
          (let third_axis_name = (if Axis.name second_axis = X then Z else X)
           in if Axis.name second_axis = X then (second_axis, first_axis, third_axis_name)
              else (first_axis, second_axis, third_axis_name))
      | Z \<Rightarrow>
          (let third_axis_name = (if Axis.name second_axis = Y then X else Y)
           in if Axis.name second_axis = Y then (second_axis, first_axis, third_axis_name)
              else (first_axis, second_axis, third_axis_name)))"

text \<open>\<open>RT.from_markers\<close>; \<open>axes\<close> is the triple (first axis, second axis, name of the
  axis to keep).  \<open>SegmentCoordinateSystemReal.from_markers\<close> has the same body, with
  the three components of \<open>axes\<close> as separate parameters.  No norm is compared with
  anything before the divisions.\<close>

definition RT_from_markers :: "Marker \<Rightarrow> Axis \<times> Axis \<times> Name \<Rightarrow> RT option \<Rightarrow> error + RT" where
  "RT_from_markers origin axes parent_RT =
     (case axes of (axis0, axis1, axis_name_to_keep) \<Rightarrow>
        if Axis.name axis0 = Axis.name axis1 then Inl ValueError_same_axis
        else case reorder_axes axis0 axis1 of (first_axis, second_axis, third_axis_name) \<Rightarrow>
          (case Axis_axis first_axis of
             Inl e \<Rightarrow> Inl e
           | Inr first_axis_vector \<Rightarrow>
          (case Axis_axis second_axis of
             Inl e \<Rightarrow> Inl e
           | Inr second_axis_vector \<Rightarrow>
          (let third_axis_vector = cross first_axis_vector second_axis_vector
           in case (if axis_name_to_keep = Axis.name first_axis
                    then Inr (first_axis_vector, cross third_axis_vector first_axis_vector)
                    else if axis_name_to_keep = Axis.name second_axis
                    then Inr (cross second_axis_vector third_axis_vector, second_axis_vector)
                    else Inl ValueError_axis_to_keep) of
                Inl e \<Rightarrow> Inl e
              | Inr (v1, v2) \<Rightarrow>
                  (let m0 = zeros44;
                       m1 = set_col (Name_value (Axis.name first_axis)) (div3 v1 (norm3 v1)) m0;
                       m2 = set_col (Name_value (Axis.name second_axis)) (div3 v2 (norm3 v2)) m1;
                       m3 = set_col (Name_value third_axis_name)
                              (div3 third_axis_vector (norm3 third_axis_vector)) m2;
                       m4 = set_col 3 (position origin) m3;
                       m5 = set_33 1 m4
                   in Inr (RT m5 parent_RT False))))))"

section \<open>Generic entities\<close>

record MarkerGeneric =
  name :: string
  from_markers :: "string list"
  parent_name :: string
  is_technical :: bool
  is_anatomical :: bool

definition to_marker :: "MarkerGeneric \<Rightarrow> c3d \<Rightarrow> RT option \<Rightarrow> error + Marker" where
  "to_marker self c parent_RT =
     Marker_from_data c (MarkerGeneric.name self) (from_markers self)
       (MarkerGeneric.parent_name self) parent_RT
       (MarkerGeneric.is_technical self) (MarkerGeneric.is_anatomical self)"

record AxisGeneric =
  name :: Name
  start_point :: MarkerGeneric
  end_point :: MarkerGeneric

definition to_axis :: "AxisGeneric \<Rightarrow> c3d \<Rightarrow> RT option \<Rightarrow> error + Axis" where
  "to_axis self c parent_RT =
     (if \<not> ezc3d_found then Inl RuntimeError_ezc3d
      else case to_marker (AxisGeneric.start_point self) c parent_RT of
        Inl e \<Rightarrow> Inl e
      | Inr start \<Rightarrow>
          (case to_marker (AxisGeneric.end_point self) c parent_RT of
             Inl e \<Rightarrow> Inl e
           | Inr end' \<Rightarrow>
               Inr \<lparr>Axis.name = AxisGeneric.name self, start_point = start, end_point = end'\<rparr>))"

record RTGeneric =
  origin :: MarkerGeneric
  axes :: "AxisGeneric \<times> AxisGeneric \<times> Name"

text \<open>\<open>RTGeneric.to_rt\<close>: the origin and the axes are bound without a parent frame; the
  parent is only handed on to \<open>from_markers\<close>.\<close>

definition to_rt :: "RTGeneric \<Rightarrow> c3d \<Rightarrow> RT option \<Rightarrow> error + RT" where
  "to_rt self c parent_RT =
     (case to_marker (origin self) c None of
        Inl e \<Rightarrow> Inl e
      | Inr origin_marker \<Rightarrow>
          (case axes self of (g0, g1, keep) \<Rightarrow>
             (case to_axis g0 c None of
                Inl e \<Rightarrow> Inl e
              | Inr axis0 \<Rightarrow>
                  (case to_axis g1 c None of
                     Inl e \<Rightarrow> Inl e
                   | Inr axis1 \<Rightarrow> RT_from_markers origin_marker (axis0, axis1, keep) parent_RT))))"

text \<open>The fields \<open>translations\<close> and \<open>rotations\<close> of the two segment classes are named
  \<open>seg_translations\<close> and \<open>seg_rotations\<close>.\<close>

record SegmentGeneric =
  name :: string
  parent_name :: string
  seg_translations :: string
  seg_rotations :: string
  markers :: "MarkerGeneric list"
  rt :: "RTGeneric option"

text \<open>\<open>SegmentGeneric(name, parent_name, translations, rotations)\<close>.\<close>

definition SegmentGeneric_init :: "string \<Rightarrow> string \<Rightarrow> string \<Rightarrow> string \<Rightarrow> SegmentGeneric" where
  "SegmentGeneric_init nm parent tr ro =
     \<lparr>SegmentGeneric.name = nm, parent_name = parent, seg_translations = tr, seg_rotations = ro,
      markers = [], rt = None\<rparr>"

definition SegmentGeneric_add_marker :: "SegmentGeneric \<Rightarrow> MarkerGeneric \<Rightarrow> SegmentGeneric" where
  "SegmentGeneric_add_marker self marker =
     self\<lparr>SegmentGeneric.markers := SegmentGeneric.markers self @ [marker]\<rparr>"

text \<open>A name or tuple of names used only to read the trial becomes a \<open>MarkerGeneric\<close> with
  empty \<open>name\<close> and \<open>parent_name\<close> and the default flags.\<close>

definition anonymous_marker :: "string list \<Rightarrow> MarkerGeneric" where
  "anonymous_marker ns =
     \<lparr>MarkerGeneric.name = '''', from_markers = ns, parent_name = '''',
      is_technical = True, is_anatomical = False\<rparr>"

definition SegmentGeneric_set_rt ::
  "SegmentGeneric \<Rightarrow> string list \<Rightarrow> Name \<Rightarrow> string list \<times> string list \<Rightarrow>
     Name \<Rightarrow> string list \<times> string list \<Rightarrow> Name \<Rightarrow> SegmentGeneric" where
  "SegmentGeneric_set_rt self origin_from_markers first_axis_name first_axis_markers
       second_axis_name second_axis_markers axis_to_keep =
     (let first_axis_tp =
            \<lparr>AxisGeneric.name = first_axis_name,
             start_point = anonymous_marker (fst first_axis_markers),
             end_point = anonymous_marker (snd first_axis_markers)\<rparr>;
          second_axis_tp =
            \<lparr>AxisGeneric.name = second_axis_name,
             start_point = anonymous_marker (fst second_axis_markers),
             end_point = anonymous_marker (snd second_axis_markers)\<rparr>
      in self\<lparr>SegmentGeneric.rt :=
           Some \<lparr>origin = anonymous_marker origin_from_markers,
                 axes = (first_axis_tp, second_axis_tp, axis_to_keep)\<rparr>\<rparr>)"

section \<open>Segment and KinematicChain\<close>

record Segment =
  name :: string
  parent_name :: string
  seg_translations :: string
  seg_rotations :: string
  markers :: "Marker list"
  rt :: "RT option"
  mass :: real
  center_of_mass :: "real \<times> real \<times> real"
  inertia_xxyyzz :: "real \<times> real \<times> real"
  mesh :: "(real \<times> real \<times> real) list option"

text \<open>\<open>Segment(name=, parent_name=, rt=, translations=, rotations=)\<close> with the defaults of
  \<open>__init__\<close> for the rest.\<close>

definition Segment_init :: "string \<Rightarrow> string \<Rightarrow> RT option \<Rightarrow> string \<Rightarrow> string \<Rightarrow> Segment" where
  "Segment_init nm parent r tr ro =
     \<lparr>Segment.name = nm, parent_name = parent, seg_translations = tr, seg_rotations = ro,
      markers = [], rt = r, mass = 0, center_of_mass = (0, 0, 0),
      inertia_xxyyzz = (0, 0, 0), mesh = None\<rparr>"

definition Segment_add_marker :: "Segment \<Rightarrow> Marker \<Rightarrow> Segment" where
  "Segment_add_marker self marker = self\<lparr>Segment.markers := Segment.markers self @ [marker]\<rparr>"

record KinematicChain =
  segments :: "Segment list"

text \<open>The files: a path has a content or does not exist.  \<open>KinematicChain.write\<close> opens
  the path for writing and writes \<open>str(self)\<close>, a text computed from the chain alone; the
  content is kept as the chain it renders.\<close>

type_synonym files = "string \<rightharpoonup> KinematicChain"

definition KinematicChain_write :: "KinematicChain \<Rightarrow> string \<Rightarrow> files \<Rightarrow> files" where
  "KinematicChain_write self file_path fs = fs(file_path \<mapsto> self)"

section \<open>KinematicModelGeneric\<close>

text \<open>The dict \<open>self.segments\<close>, in insertion order.  Assigning to a key that exists
  replaces the value where it is; a new key goes to the end.\<close>

fun dict_set :: "('k \<times> 'v) list \<Rightarrow> 'k \<Rightarrow> 'v \<Rightarrow> ('k \<times> 'v) list" where
  "dict_set [] k v = [(k, v)]"
| "dict_set ((k', v') # kvs) k v =
     (if k' = k then (k, v) # kvs else (k', v') # dict_set kvs k v)"

record KinematicModelGeneric =
  segments :: "(string \<times> SegmentGeneric) list"

definition KinematicModelGeneric_init :: KinematicModelGeneric where
  "KinematicModelGeneric_init = \<lparr>KinematicModelGeneric.segments = []\<rparr>"

definition add_segment ::
  "KinematicModelGeneric \<Rightarrow> string \<Rightarrow> string \<Rightarrow> string \<Rightarrow> string \<Rightarrow> KinematicModelGeneric" where
  "add_segment self nm parent tr ro =
     self\<lparr>KinematicModelGeneric.segments :=
       dict_set (KinematicModelGeneric.segments self) nm (SegmentGeneric_init nm parent tr ro)\<rparr>"

definition set_rt ::
  "KinematicModelGeneric \<Rightarrow> string \<Rightarrow> string list \<Rightarrow> Name \<Rightarrow> string list \<times> string list \<Rightarrow>
     Name \<Rightarrow> string list \<times> string list \<Rightarrow> Name \<Rightarrow> error + KinematicModelGeneric" where
  "set_rt self segment_name origin_markers first_axis_name first_axis_markers
       second_axis_name second_axis_markers axis_to_keep =
     (case map_of (KinematicModelGeneric.segments self) segment_name of
        None \<Rightarrow> Inl (KeyError segment_name)
      | Some s \<Rightarrow>
          Inr (self\<lparr>KinematicModelGeneric.segments :=
                 dict_set (KinematicModelGeneric.segments self) segment_name
                   (SegmentGeneric_set_rt s origin_markers first_axis_name first_axis_markers
                      second_axis_name second_axis_markers axis_to_keep)\<rparr>))"

text \<open>\<open>add_marker\<close>; \<open>from_markers = None\<close> stands for the name of the marker itself.\<close>

definition add_marker ::
  "KinematicModelGeneric \<Rightarrow> string \<Rightarrow> string \<Rightarrow> string list option \<Rightarrow> bool \<Rightarrow> bool \<Rightarrow>
     error + KinematicModelGeneric" where
  "add_marker self segment nm from_markers_opt technical anatomical =
     (let from_names = (case from_markers_opt of None \<Rightarrow> [nm] | Some ns \<Rightarrow> ns)
      in case map_of (KinematicModelGeneric.segments self) segment of
           None \<Rightarrow> Inl (KeyError segment)
         | Some s \<Rightarrow>
             Inr (self\<lparr>KinematicModelGeneric.segments :=
                    dict_set (KinematicModelGeneric.segments self) segment
                      (SegmentGeneric_add_marker s
                         \<lparr>MarkerGeneric.name = nm, from_markers = from_names, parent_name = segment,
                          is_technical = technical, is_anatomical = anatomical\<rparr>)\<rparr>))"

subsection \<open>generate_personalized\<close>

text \<open>\<open>[segment.name for segment in segments].index(s.parent_name) if s.parent_name else None\<close>.\<close>

definition parent_lookup :: "Segment list \<Rightarrow> string \<Rightarrow> error + nat option" where
  "parent_lookup segs parent =
     (if parent \<noteq> '''' then
        (case list_index (map Segment.name segs) parent of
           None \<Rightarrow> Inl (ValueError_parent_not_in_list parent)
         | Some i \<Rightarrow> Inr (Some i))
      else Inr None)"

text \<open>The inner loop \<open>for marker in s.markers\<close>: each marker is bound in the frame \<open>rt\<close> of
  the segment and added to the new segment.\<close>

fun bind_markers :: "c3d \<Rightarrow> RT \<Rightarrow> MarkerGeneric list \<Rightarrow> Segment \<Rightarrow> error + Segment" where
  "bind_markers c r [] seg = Inr seg"
| "bind_markers c r (mk # mks) seg =
     (case to_marker mk c (Some r) of
        Inl e \<Rightarrow> Inl e
      | Inr m \<Rightarrow> bind_markers c r mks (Segment_add_marker seg m))"

text \<open>One pass of the outer loop, from the assembled \<open>segments\<close> to the list with the new
  segment at its end.  (The source appends the segment and then adds the markers to
  \<open>segments[-1]\<close>; an exception in between discards the list.)\<close>

definition collapse_segment :: "c3d \<Rightarrow> Segment list \<Rightarrow> SegmentGeneric \<Rightarrow> error + Segment list" where
  "collapse_segment c segs s =
     (case parent_lookup segs (SegmentGeneric.parent_name s) of
        Inl e \<Rightarrow> Inl e
      | Inr parent_index \<Rightarrow>
          (case (case SegmentGeneric.rt s of
                   None \<Rightarrow> Inr RT_default
                 | Some g \<Rightarrow>
                     to_rt g c (case parent_index of
                                  Some i \<Rightarrow> Segment.rt (segs ! i)
                                | None \<Rightarrow> None)) of
             Inl e \<Rightarrow> Inl e
           | Inr r \<Rightarrow>
               (case bind_markers c r (SegmentGeneric.markers s)
                       (Segment_init (SegmentGeneric.name s) (SegmentGeneric.parent_name s)
                          (Some r) (SegmentGeneric.seg_translations s)
                          (SegmentGeneric.seg_rotations s)) of
                  Inl e \<Rightarrow> Inl e
                | Inr seg \<Rightarrow> Inr (segs @ [seg]))))"

text \<open>The outer loop \<open>for name in self.segments\<close> over the generic segments that remain.\<close>

fun collapse :: "c3d \<Rightarrow> SegmentGeneric list \<Rightarrow> Segment list \<Rightarrow> error + Segment list" where
  "collapse c [] segs = Inr segs"
| "collapse c (s # rest) segs =
     (case collapse_segment c segs s of
        Inl e \<Rightarrow> Inl e
      | Inr segs' \<Rightarrow> collapse c rest segs')"

text \<open>\<open>generate_personalized\<close>: the loop, then \<open>KinematicChain(tuple(segments))\<close> and
  \<open>model.write(save_path)\<close>.  The result is the exception raised, if any, and the files
  afterwards.  The keys of the dict are distinct, so the value read under each key is the
  value stored with it.\<close>

definition generate_personalized ::
  "KinematicModelGeneric \<Rightarrow> c3d \<Rightarrow> string \<Rightarrow> files \<Rightarrow> (error + unit) \<times> files" where
  "generate_personalized self c save_path fs =
     (case collapse c (map snd (KinematicModelGeneric.segments self)) [] of
        Inl e \<Rightarrow> (Inl e, fs)
      | Inr segs \<Rightarrow> (Inr (), KinematicChain_write \<lparr>KinematicChain.segments = segs\<rparr> save_path fs))"

section \<open>Vectors of reals\<close>

text \<open>Vectors whose three components are numbers, none of them nan: the marker positions
  that the dynamics engine returns, and the finite values among the \<open>vec3\<close>.\<close>

datatype rvec = RV (vx: real) (vy: real) (vz: real)

fun fin3 :: "rvec \<Rightarrow> vec3" where
  "fin3 (RV a b c) = V3 (Fin a) (Fin b) (Fin c)"

fun rsub :: "rvec \<Rightarrow> rvec \<Rightarrow> rvec" where
  "rsub (RV a b c) (RV x y z) = RV (a - x) (b - y) (c - z)"

fun rscale :: "real \<Rightarrow> rvec \<Rightarrow> rvec" where
  "rscale k (RV a b c) = RV (k * a) (k * b) (k * c)"

fun rdot :: "rvec \<Rightarrow> rvec \<Rightarrow> real" where
  "rdot (RV a b c) (RV x y z) = a * x + b * y + c * z"

fun rcross :: "rvec \<Rightarrow> rvec \<Rightarrow> rvec" where
  "rcross (RV a b c) (RV x y z) = RV (b * z - c * y) (c * x - a * z) (a * y - b * x)"

definition rnorm :: "rvec \<Rightarrow> real" where
  "rnorm v = sqrt (rdot v v)"


text \<open>Three columns are orthonormal: each of length one, each two at a right angle.\<close>

definition orthonormal :: "rvec \<Rightarrow> rvec \<Rightarrow> rvec \<Rightarrow> bool" where
  "orthonormal cx cy cz \<longleftrightarrow>
     rdot cx cx = 1 \<and> rdot cy cy = 1 \<and> rdot cz cz = 1 \<and>
     rdot cx cy = 0 \<and> rdot cx cz = 0 \<and> rdot cy cz = 0"

text \<open>The rigid transform with rotation columns \<open>cx\<close>, \<open>cy\<close>, \<open>cz\<close>, translation \<open>t\<close> and
  bottom row (0, 0, 0, 1).\<close>

fun homog :: "rvec \<Rightarrow> rvec \<Rightarrow> rvec \<Rightarrow> rvec \<Rightarrow> mat4" where
  "homog (RV x0 x1 x2) (RV y0 y1 y2) (RV z0 z1 z2) (RV t0 t1 t2) =
     M4 (V4 (Fin x0) (Fin y0) (Fin z0) (Fin t0))
        (V4 (Fin x1) (Fin y1) (Fin z1) (Fin t1))
        (V4 (Fin x2) (Fin y2) (Fin z2) (Fin t2))
        (V4 (Fin 0) (Fin 0) (Fin 0) (Fin 1))"

section \<open>DeLeva\<close>

record Param =
  marker_names :: "string \<times> string"
  mass :: real
  center_of_mass :: real
  radii :: "real \<times> real \<times> real"

text \<open>What the class reads of a \<open>biorbd.Model\<close>: \<open>nbQ()\<close>, the strings of \<open>markerNames()\<close>
  and the arrays of \<open>markers(Q)\<close>.\<close>

record biorbd_Model =
  nbQ :: nat
  markerNames :: "string list"
  markers :: "real list \<Rightarrow> rvec list"

record DeLeva =
  sex :: string
  mass :: real
  model :: biorbd_Model

definition q_zero :: "DeLeva \<Rightarrow> real list" where
  "q_zero self = replicate (nbQ (model self)) 0"

definition DeLeva_marker_names :: "DeLeva \<Rightarrow> string list" where
  "DeLeva_marker_names self = markerNames (model self)"

definition table_male :: "(string \<times> Param) list" where
  "table_male =
     [(''HEAD'', \<lparr>marker_names = (''TOP_HEAD'', ''SHOULDER''), mass = 0.0694,
          center_of_mass = 0.5002, radii = (0.303, 0.315, 0.261)\<rparr>),
      (''TRUNK'', \<lparr>marker_names = (''SHOULDER'', ''PELVIS''), mass = 0.4346,
          center_of_mass = 0.5138, radii = (0.328, 0.306, 0.169)\<rparr>),
      (''UPPER_ARM'', \<lparr>marker_names = (''SHOULDER'', ''ELBOW''), mass = 0.0271 * 2,
          center_of_mass = 0.5772, radii = (0.285, 0.269, 0.158)\<rparr>),
      (''LOWER_ARM'', \<lparr>marker_names = (''ELBOW'', ''WRIST''), mass = 0.0162 * 2,
          center_of_mass = 0.4574, radii = (0.276, 0.265, 0.121)\<rparr>),
      (''HAND'', \<lparr>marker_names = (''WRIST'', ''FINGER''), mass = 0.0061 * 2,
          center_of_mass = 0.7900, radii = (0.628, 0.513, 0.401)\<rparr>),
      (''THIGH'', \<lparr>marker_names = (''PELVIS'', ''KNEE''), mass = 0.1416 * 2,
          center_of_mass = 0.4095, radii = (0.329, 0.329, 0.149)\<rparr>),
      (''SHANK'', \<lparr>marker_names = (''KNEE'', ''ANKLE''), mass = 0.0433 * 2,
          center_of_mass = 0.4459, radii = (0.255, 0.249, 0.103)\<rparr>),
      (''FOOT'', \<lparr>marker_names = (''ANKLE'', ''TOE''), mass = 0.0137 * 2,
          center_of_mass = 0.4415, radii = (0.257, 0.245, 0.124)\<rparr>)]"

definition table_female :: "(string \<times> Param) list" where
  "table_female =
     [(''HEAD'', \<lparr>marker_names = (''TOP_HEAD'', ''SHOULDER''), mass = 0.0669,
          center_of_mass = 0.4841, radii = (0.271, 0.295, 0.261)\<rparr>),
      (''TRUNK'', \<lparr>marker_names = (''SHOULDER'', ''PELVIS''), mass = 0.4257,
          center_of_mass = 0.4964, radii = (0.307, 0.292, 0.147)\<rparr>),
      (''UPPER_ARM'', \<lparr>marker_names = (''SHOULDER'', ''ELBOW''), mass = 0.0255 * 2,
          center_of_mass = 0.5754, radii = (0.278, 0.260, 0.148)\<rparr>),
      (''LOWER_ARM'', \<lparr>marker_names = (''ELBOW'', ''WRIST''), mass = 0.0138 * 2,
          center_of_mass = 0.4559, radii = (0.261, 0.257, 0.094)\<rparr>),
      (''HAND'', \<lparr>marker_names = (''WRIST'', ''FINGER''), mass = 0.0056 * 2,
          center_of_mass = 0.7474, radii = (0.531, 0.454, 0.335)\<rparr>),
      (''THIGH'', \<lparr>marker_names = (''PELVIS'', ''KNEE''), mass = 0.1478 * 2,
          center_of_mass = 0.3612, radii = (0.369, 0.364, 0.162)\<rparr>),
      (''SHANK'', \<lparr>marker_names = (''KNEE'', ''ANKLE''), mass = 0.0481 * 2,
          center_of_mass = 0.4416, radii = (0.271, 0.267, 0.093)\<rparr>),
      (''FOOT'', \<lparr>marker_names = (''ANKLE'', ''TOE''), mass = 0.0129 * 2,
          center_of_mass = 0.4014, radii = (0.299, 0.279, 0.124)\<rparr>)]"

definition table :: "(string \<times> (string \<times> Param) list) list" where
  "table = [(''male'', table_male), (''female'', table_female)]"

text \<open>\<open>self.table[self.sex][segment]\<close>.\<close>

definition table_row :: "DeLeva \<Rightarrow> string \<Rightarrow> error + Param" where
  "table_row self segment =
     (case map_of table (sex self) of
        None \<Rightarrow> Inl (KeyError (sex self))
      | Some rows \<Rightarrow>
          (case map_of rows segment of
             None \<Rightarrow> Inl (KeyError segment)
           | Some p \<Rightarrow> Inr p))"

definition segment_mass :: "DeLeva \<Rightarrow> string \<Rightarrow> error + real" where
  "segment_mass self segment =
     (case table_row self segment of
        Inl e \<Rightarrow> Inl e
      | Inr p \<Rightarrow> Inr (Param.mass p * DeLeva.mass self))"

text \<open>The positions of the two markers of a table row in the model at rest, proximal
  first: the part that \<open>segment_length\<close> and \<open>segment_center_of_mass\<close> share.\<close>

definition proximal_distal :: "DeLeva \<Rightarrow> Param \<Rightarrow> error + rvec \<times> rvec" where
  "proximal_distal self p =
     (let marker_positions = biorbd_Model.markers (model self) (q_zero self)
      in case list_index (DeLeva_marker_names self) (fst (marker_names p)) of
           None \<Rightarrow> Inl (ValueError_marker_not_in_list (fst (marker_names p)))
         | Some idx_proximal \<Rightarrow>
             (case list_index (DeLeva_marker_names self) (snd (marker_names p)) of
                None \<Rightarrow> Inl (ValueError_marker_not_in_list (snd (marker_names p)))
              | Some idx_distal \<Rightarrow>
                  if idx_distal \<ge> length marker_positions \<or> idx_proximal \<ge> length marker_positions
                  then Inl IndexError
                  else Inr (marker_positions ! idx_proximal, marker_positions ! idx_distal)))"

definition segment_length :: "DeLeva \<Rightarrow> string \<Rightarrow> error + real" where
  "segment_length self segment =
     (case table_row self segment of
        Inl e \<Rightarrow> Inl e
      | Inr p \<Rightarrow>
          (case proximal_distal self p of
             Inl e \<Rightarrow> Inl e
           | Inr (proximal, distal) \<Rightarrow> Inr (rnorm (rsub distal proximal))))"

definition segment_center_of_mass :: "DeLeva \<Rightarrow> string \<Rightarrow> bool \<Rightarrow> error + rvec" where
  "segment_center_of_mass self segment inverse_proximal =
     (case table_row self segment of
        Inl e \<Rightarrow> Inl e
      | Inr p \<Rightarrow>
          (case proximal_distal self p of
             Inl e \<Rightarrow> Inl e
           | Inr (proximal, distal) \<Rightarrow>
               if inverse_proximal
               then Inr (rscale (1 - Param.center_of_mass p) (rsub proximal distal))
               else Inr (rscale (Param.center_of_mass p) (rsub distal proximal))))"

definition segment_moment_of_inertia :: "DeLeva \<Rightarrow> string \<Rightarrow> error + real \<times> real \<times> real" where
  "segment_moment_of_inertia self segment =
     (case segment_mass self segment of
        Inl e \<Rightarrow> Inl e
      | Inr m \<Rightarrow>
          (case segment_length self segment of
             Inl e \<Rightarrow> Inl e
           | Inr l \<Rightarrow>
               (case table_row self segment of
                  Inl e \<Rightarrow> Inl e
                | Inr p \<Rightarrow>
                    (case radii p of (r0, r1, r2) \<Rightarrow>
                       Inr (m * (l * r0)\<^sup>2, m * (l * r1)\<^sup>2, m * (l * r2)\<^sup>2)))))"

section \<open>Conditions on a generic model and a trial\<close>

text \<open>A call returns (it raises nothing).\<close>

fun returns :: "error + 'a \<Rightarrow> bool" where
  "returns (Inl e) = False"
| "returns (Inr v) = True"

text \<open>No forward reference: each parent name that is not empty is the name of a segment
  declared earlier (\<open>seen\<close> are the names declared so far).\<close>

fun parents_precede :: "string list \<Rightarrow> SegmentGeneric list \<Rightarrow> bool" where
  "parents_precede seen [] = True"
| "parents_precede seen (s # gs) =
     ((SegmentGeneric.parent_name s = '''' \<or> List.member seen (SegmentGeneric.parent_name s))
      \<and> parents_precede (seen @ [SegmentGeneric.name s]) gs)"

text \<open>The frame recipe of a segment, if it has one, binds against the trial, and so does
  each of its markers.  Whether a recipe or a marker binds does not depend on the parent
  frame, so the conditions are stated without one.\<close>

definition frame_binds :: "c3d \<Rightarrow> SegmentGeneric \<Rightarrow> bool" where
  "frame_binds c s =
     (case SegmentGeneric.rt s of None \<Rightarrow> True | Some g \<Rightarrow> returns (to_rt g c None))"

definition markers_bind :: "c3d \<Rightarrow> SegmentGeneric \<Rightarrow> bool" where
  "markers_bind c s = list_all (\<lambda>mk. returns (to_marker mk c None)) (SegmentGeneric.markers s)"

section \<open>The result of from_markers, named\<close>

text \<open>Names for what \<open>from_markers\<close> computes, used to state its properties: the quotient
  of a vector by its norm, the vector of an axis, and the matrix that the six assignments
  build from the origin and three (column, vector) pairs.\<close>

definition normalize3 :: "vec3 \<Rightarrow> vec3" where
  "normalize3 v = div3 v (norm3 v)"

definition axis_vector :: "Axis \<Rightarrow> vec3" where
  "axis_vector a = sub3 (position (Axis.end_point a)) (position (Axis.start_point a))"

definition frame_matrix :: "vec3 \<Rightarrow> nat \<Rightarrow> vec3 \<Rightarrow> nat \<Rightarrow> vec3 \<Rightarrow> nat \<Rightarrow> vec3 \<Rightarrow> mat4" where
  "frame_matrix pos j1 v1 j2 v2 j3 v3 =
     set_33 1 (set_col 3 pos
       (set_col j3 (normalize3 v3) (set_col j2 (normalize3 v2) (set_col j1 (normalize3 v1) zeros44))))"

text \<open>The successor of an axis name in the cyclic order X, Y, Z, X.\<close>

fun next_axis :: "Name \<Rightarrow> Name" where
  "next_axis X = Y"
| "next_axis Y = Z"
| "next_axis Z = X"

section \<open>The distance of two points, in the words of the specification\<close>

text \<open>The Euclidean distance: the root of the sum of the squared differences of the
  coordinates.\<close>

definition euclidean_distance :: "rvec \<Rightarrow> rvec \<Rightarrow> real" where
  "euclidean_distance p q = sqrt ((vx p - vx q)\<^sup>2 + (vy p - vy q)\<^sup>2 + (vz p - vz q)\<^sup>2)"

text \<open>The segment names of the table.\<close>

definition tabulated_segments :: "string list" where
  "tabulated_segments =
     [''HEAD'', ''TRUNK'', ''UPPER_ARM'', ''LOWER_ARM'', ''HAND'', ''THIGH'', ''SHANK'', ''FOOT'']"

text \<open>The entry of the table under a sex and a segment name, read off the table itself:
  the rows of the sex, then the row of the segment among them.\<close>

definition table_entry :: "string \<Rightarrow> string \<Rightarrow> Param option" where
  "table_entry sx segment =
     (case map_of table sx of None \<Rightarrow> None | Some rows \<Rightarrow> map_of rows segment)"

text \<open>The bottom row \<open>m[3, :]\<close> of a matrix.\<close>

fun bottom_row :: "mat4 \<Rightarrow> vec4" where
  "bottom_row (M4 r0 r1 r2 r3) = r3"



section \<open>The mean position of a marker set, in the words of the specification\<close>

text \<open>The samples of the marker with label \<open>n\<close>: the column of the first label equal to
  \<open>n\<close>.\<close>

definition samples_of :: "c3d \<Rightarrow> string \<Rightarrow> vec4 list" where
  "samples_of c n = (case list_index (LABELS c) n of Some i \<Rightarrow> points c ! i | None \<Rightarrow> [])"

text \<open>Coordinate \<open>k\<close> of a marker is nan in all its samples; a marker is missing when this
  is so for one of its coordinates x, y, z.  That is the condition of the code, which takes
  the mean of each coordinate by itself.\<close>

definition coordinate_absent :: "c3d \<Rightarrow> nat \<Rightarrow> string \<Rightarrow> bool" where
  "coordinate_absent c k n = list_all (\<lambda>s. isnan (get4 k s)) (samples_of c n)"

definition marker_missing :: "c3d \<Rightarrow> string \<Rightarrow> bool" where
  "marker_missing c n =
     (coordinate_absent c 0 n \<or> coordinate_absent c 1 n \<or> coordinate_absent c 2 n)"

text \<open>The two ways to read ``a sample is nan'' for a whole sample.  A marker is absent in
  all samples when each of its samples has nan for x, y and z (a sample is nan when all
  its coordinates are); a marker has a sample that is present when in one of its samples
  none of x, y, z is nan (a sample is nan when one of its coordinates is).\<close>

definition absent_throughout :: "c3d \<Rightarrow> string \<Rightarrow> bool" where
  "absent_throughout c n =
     list_all (\<lambda>s. isnan (get4 0 s) \<and> isnan (get4 1 s) \<and> isnan (get4 2 s)) (samples_of c n)"

definition present_once :: "c3d \<Rightarrow> string \<Rightarrow> bool" where
  "present_once c n =
     list_ex (\<lambda>s. \<not> isnan (get4 0 s) \<and> \<not> isnan (get4 1 s) \<and> \<not> isnan (get4 2 s)) (samples_of c n)"

text \<open>The numbers among a list of values, and the mean of a list of numbers.\<close>

fun fin_values :: "fl list \<Rightarrow> real list" where
  "fin_values [] = []"
| "fin_values (Fin x # xs) = x # fin_values xs"
| "fin_values (NaN # xs) = fin_values xs"

definition rmean :: "real list \<Rightarrow> real" where
  "rmean xs = sum_list xs / real (length xs)"

text \<open>1000 for a trial in millimetres, 1 otherwise.\<close>

definition unit_factor :: "c3d \<Rightarrow> real" where
  "unit_factor c = (case UNITS c of u # us \<Rightarrow> if u = ''mm'' then 1000 else 1 | [] \<Rightarrow> 1)"

text \<open>Coordinate \<open>k\<close> of the mean position of the markers \<open>ns\<close>, in metres: the mean over
  the markers of the mean over the samples in which the coordinate is not nan.\<close>

definition mean_coordinate :: "c3d \<Rightarrow> string list \<Rightarrow> nat \<Rightarrow> real" where
  "mean_coordinate c ns k =
     rmean (map (\<lambda>n. rmean (fin_values (map (get4 k) (samples_of c n)))) ns) / unit_factor c"

section \<open>A trial and two models, for concrete instances\<close>

text \<open>A trial in millimetres with the markers A at (1000, 2000, 3000) (absent in its
  second frame), B at (1000, 3000, 3000) and C at (0, 3000, 3000), and a marker GONE that
  is absent in every frame.\<close>

definition example_trial :: c3d where
  "example_trial =
     \<lparr>LABELS = [''A'', ''B'', ''C'', ''GONE''],
      UNITS = [''mm''],
      points =
        [[V4 (Fin 1000) (Fin 2000) (Fin 3000) (Fin 1), V4 NaN NaN NaN NaN],
         [V4 (Fin 1000) (Fin 3000) (Fin 3000) (Fin 1), V4 (Fin 1000) (Fin 3000) (Fin 3000) (Fin 1)],
         [V4 (Fin 0) (Fin 3000) (Fin 3000) (Fin 1), V4 (Fin 0) (Fin 3000) (Fin 3000) (Fin 1)],
         [V4 NaN NaN NaN NaN, V4 NaN NaN NaN NaN]]\<rparr>"

text \<open>A trial in metres with two markers that are seen in part.  P has no x in either
  frame, and y and z in both.  Q has y and z in its first frame only and x in its second
  frame only.\<close>

definition example_trial_partial :: c3d where
  "example_trial_partial =
     \<lparr>LABELS = [''P'', ''Q''],
      UNITS = [''m''],
      points =
        [[V4 NaN (Fin 1) (Fin 1) (Fin 1), V4 NaN (Fin 3) (Fin 3) (Fin 1)],
         [V4 NaN (Fin 1) (Fin 1) (Fin 1), V4 (Fin 1) NaN NaN (Fin 1)]]\<rparr>"

text \<open>PELVIS, the root, with one marker and no frame recipe; THIGH, its child, with the
  frame of origin A, X axis from A to B, Y axis from A to C, keeping X, and one marker.\<close>

definition example_pelvis :: SegmentGeneric where
  "example_pelvis =
     SegmentGeneric_add_marker (SegmentGeneric_init ''PELVIS'' '''' ''xyz'' ''xyz'')
       \<lparr>MarkerGeneric.name = ''PELVIS_MARKER'', from_markers = [''A''], parent_name = ''PELVIS'',
        is_technical = True, is_anatomical = False\<rparr>"

definition example_thigh :: SegmentGeneric where
  "example_thigh =
     SegmentGeneric_add_marker
       (SegmentGeneric_set_rt (SegmentGeneric_init ''THIGH'' ''PELVIS'' '''' ''x'')
          [''A''] X ([''A''], [''B'']) Y ([''A''], [''C'']) X)
       \<lparr>MarkerGeneric.name = ''KNEE'', from_markers = [''B'', ''C''], parent_name = ''THIGH'',
        is_technical = True, is_anatomical = False\<rparr>"

definition example_model :: KinematicModelGeneric where
  "example_model =
     \<lparr>KinematicModelGeneric.segments = [(''PELVIS'', example_pelvis), (''THIGH'', example_thigh)]\<rparr>"

text \<open>The same segments with the child declared first.\<close>

definition example_model_child_first :: KinematicModelGeneric where
  "example_model_child_first =
     \<lparr>KinematicModelGeneric.segments = [(''THIGH'', example_thigh), (''PELVIS'', example_pelvis)]\<rparr>"

text \<open>One root segment whose only marker reads a label that the trial does not have.\<close>

definition example_model_unknown_label :: KinematicModelGeneric where
  "example_model_unknown_label =
     \<lparr>KinematicModelGeneric.segments =
        [(''PELVIS'',
          SegmentGeneric_add_marker (SegmentGeneric_init ''PELVIS'' '''' ''xyz'' ''xyz'')
            \<lparr>MarkerGeneric.name = ''M'', from_markers = [''NOT_A_LABEL''], parent_name = ''PELVIS'',
             is_technical = True, is_anatomical = False\<rparr>)]\<rparr>"

text \<open>A male subject of 70 kg and a model with no degree of freedom whose markers at rest
  are TOP\_HEAD at (0, 0, 2) and SHOULDER at (0, 0, 0).\<close>

definition example_subject :: DeLeva where
  "example_subject =
     \<lparr>sex = ''male'', mass = 70,
      model = \<lparr>nbQ = 0, markerNames = [''TOP_HEAD'', ''SHOULDER''],
               markers = (\<lambda>q. [RV 0 0 2, RV 0 0 0])\<rparr>\<rparr>"

text \<open>A female subject of 60 kg and a model with two degrees of freedom whose markers at
  rest are TOP\_HEAD at (0, 0, 2), SHOULDER at (0, 0, 3/2), PELVIS at (0, 0, 1) and KNEE at
  (0, 0, 1/2).\<close>

definition example_subject_female :: DeLeva where
  "example_subject_female =
     \<lparr>sex = ''female'', mass = 60,
      model = \<lparr>nbQ = 2, markerNames = [''TOP_HEAD'', ''SHOULDER'', ''PELVIS'', ''KNEE''],
               markers = (\<lambda>q. [RV 0 0 2, RV 0 0 (3 / 2), RV 0 0 1, RV 0 0 (1 / 2)])\<rparr>\<rparr>"

text \<open>Three markers and two axes from the first of them: the X axis along (0, 1, 0) and
  the Y axis along (-1, 1, 0), which is not at a right angle to it.  The third axis has
  no length.\<close>

definition example_marker_A :: Marker where
  "example_marker_A =
     \<lparr>Marker.name = ''A'', parent_name = '''', position = V3 (Fin 1) (Fin 2) (Fin 3),
      is_technical = True, is_anatomical = False\<rparr>"

definition example_marker_B :: Marker where
  "example_marker_B =
     \<lparr>Marker.name = ''B'', parent_name = '''', position = V3 (Fin 1) (Fin 3) (Fin 3),
      is_technical = True, is_anatomical = False\<rparr>"


definition example_axis_x :: Axis where
  "example_axis_x =
     \<lparr>Axis.name = X, start_point = example_marker_A, end_point = example_marker_B\<rparr>"


definition example_axis_no_length :: Axis where
  "example_axis_no_length =
     \<lparr>Axis.name = Z, start_point = example_marker_A, end_point = example_marker_A\<rparr>"





text \<open>A memory with one buffer, at address 0, that holds the turn by a right angle about Z
  with the translation (1, 2, 3), and the RT whose array is a view on that buffer.\<close>

definition example_memory :: memory where
  "example_memory =
     \<lparr>cells = (\<lambda>a. homog (RV 0 1 0) (RV (- 1) 0 0) (RV 0 0 1) (RV 1 2 3)), next_free = 1\<rparr>"

definition example_RT_object :: RT_object where
  "example_RT_object = RT_object \<lparr>buffer = 0, transposed = False\<rparr> None False"

section \<open>Properties of the frame algebra\<close>

lemma fl_zero_one [simp]: "(0::fl) = Fin 0" "(1::fl) = Fin 1"
  by (simp_all add: zero_fl_def one_fl_def)

lemma sq_sum_zero6:
  fixes p q r s t u :: real
  assumes "p\<^sup>2 + q\<^sup>2 + r\<^sup>2 + 2 * s\<^sup>2 + 2 * t\<^sup>2 + 2 * u\<^sup>2 = 0"
  shows "p = 0 \<and> q = 0 \<and> r = 0 \<and> s = 0 \<and> t = 0 \<and> u = 0"
proof -
  have nn: "0 \<le> p\<^sup>2" "0 \<le> q\<^sup>2" "0 \<le> r\<^sup>2" "0 \<le> s\<^sup>2" "0 \<le> t\<^sup>2" "0 \<le> u\<^sup>2"
    by simp_all
  with assms have "p\<^sup>2 = 0" "q\<^sup>2 = 0" "r\<^sup>2 = 0" "s\<^sup>2 = 0" "t\<^sup>2 = 0" "u\<^sup>2 = 0"
    by linarith+
  then show ?thesis by simp
qed

text \<open>The squared entries of \<open>R R\<^sup>T\<close> and of \<open>R\<^sup>T R\<close> have the same sum.\<close>

lemma gram_identity:
  fixes a0 a1 a2 b0 b1 b2 c0 c1 c2 :: real
  shows "(a0*a0 + a1*a1 + a2*a2)\<^sup>2 + (b0*b0 + b1*b1 + b2*b2)\<^sup>2 + (c0*c0 + c1*c1 + c2*c2)\<^sup>2
       + 2 * (a0*b0 + a1*b1 + a2*b2)\<^sup>2 + 2 * (a0*c0 + a1*c1 + a2*c2)\<^sup>2
       + 2 * (b0*c0 + b1*c1 + b2*c2)\<^sup>2
     = (a0*a0 + b0*b0 + c0*c0)\<^sup>2 + (a1*a1 + b1*b1 + c1*c1)\<^sup>2 + (a2*a2 + b2*b2 + c2*c2)\<^sup>2
       + 2 * (a0*a1 + b0*b1 + c0*c1)\<^sup>2 + 2 * (a0*a2 + b0*b2 + c0*c2)\<^sup>2
       + 2 * (a1*a2 + b1*b2 + c1*c2)\<^sup>2"
  by (simp add: power2_eq_square algebra_simps)

text \<open>A square matrix with orthonormal columns has orthonormal rows: the distance of
  \<open>R R\<^sup>T\<close> from the identity, a sum of squares, is zero.\<close>

lemma orthonormal_columns_rows:
  fixes a0 a1 a2 b0 b1 b2 c0 c1 c2 :: real
  assumes g: "a0*a0 + b0*b0 + c0*c0 = 1" "a1*a1 + b1*b1 + c1*c1 = 1" "a2*a2 + b2*b2 + c2*c2 = 1"
    "a0*a1 + b0*b1 + c0*c1 = 0" "a0*a2 + b0*b2 + c0*c2 = 0" "a1*a2 + b1*b2 + c1*c2 = 0"
  shows "a0*a0 + a1*a1 + a2*a2 = 1 \<and> b0*b0 + b1*b1 + b2*b2 = 1 \<and> c0*c0 + c1*c1 + c2*c2 = 1
       \<and> a0*b0 + a1*b1 + a2*b2 = 0 \<and> a0*c0 + a1*c1 + a2*c2 = 0 \<and> b0*c0 + b1*c1 + b2*c2 = 0"
proof -
  define p where "p = a0*a0 + a1*a1 + a2*a2"
  define q where "q = b0*b0 + b1*b1 + b2*b2"
  define r where "r = c0*c0 + c1*c1 + c2*c2"
  define s where "s = a0*b0 + a1*b1 + a2*b2"
  define t where "t = a0*c0 + a1*c1 + a2*c2"
  define u where "u = b0*c0 + b1*c1 + b2*c2"
  have sq: "p\<^sup>2 + q\<^sup>2 + r\<^sup>2 + 2 * s\<^sup>2 + 2 * t\<^sup>2 + 2 * u\<^sup>2 = 3"
    unfolding p_def q_def r_def s_def t_def u_def
    by (simp add: gram_identity [of a0 a1 a2 b0 b1 b2 c0 c1 c2] g)
  have tr: "p + q + r = 3"
    unfolding p_def q_def r_def using g(1,2,3) by linarith
  have "(p - 1)\<^sup>2 + (q - 1)\<^sup>2 + (r - 1)\<^sup>2 + 2 * s\<^sup>2 + 2 * t\<^sup>2 + 2 * u\<^sup>2
        = (p\<^sup>2 + q\<^sup>2 + r\<^sup>2 + 2 * s\<^sup>2 + 2 * t\<^sup>2 + 2 * u\<^sup>2) - 2 * (p + q + r) + 3"
    by (simp add: power2_eq_square algebra_simps)
  also have "\<dots> = 0" using sq tr by simp
  finally have "p - 1 = 0 \<and> q - 1 = 0 \<and> r - 1 = 0 \<and> s = 0 \<and> t = 0 \<and> u = 0"
    by (rule sq_sum_zero6)
  then show ?thesis
    unfolding p_def q_def r_def s_def t_def u_def by simp
qed

text \<open>\<open>transpose\<close> on a matrix of numbers with bottom row (0, 0, 0, 1).\<close>

lemma transpose_homog:
  "RT.rt T = homog (RV x0 x1 x2) (RV y0 y1 y2) (RV z0 z1 z2) t \<Longrightarrow>
   RT.rt (RT_transpose T) =
     homog (RV x0 y0 z0) (RV x1 y1 z1) (RV x2 y2 z2)
       (RV (- rdot (RV x0 x1 x2) t) (- rdot (RV y0 y1 y2) t) (- rdot (RV z0 z1 z2) t))"
  by (cases t) (simp add: RT_transpose_def RT_copy_def Let_def)

text \<open>
  C10.  For every RT, \<open>copy()\<close> and \<open>transpose\<close> return an object whose \<open>is_rt_local\<close> is
  False whatever the flag of the original was: \<open>copy\<close> hands on the matrix and the parent
  only.  So \<open>__str__\<close> treats the copy or the transpose of a local transform as not
  local: it renders the product with the transposed parent, or the identity without one.
\<close>

theorem copy_transpose_drop_local_flag:
  "is_rt_local (RT_copy self) = False
   \<and> is_rt_local (RT_transpose self) = False
   \<and> RT.rt (RT_copy self) = RT.rt self
   \<and> parent_rt (RT_copy self) = parent_rt self
   \<and> parent_rt (RT_transpose self) = parent_rt self
   \<and> RT_str_matrix (RT_copy self) =
       (case parent_rt self of
          Some p \<Rightarrow> matmul (RT.rt (RT_transpose p)) (RT.rt self)
        | None \<Rightarrow> identity4)
   \<and> RT_str_matrix (RT_transpose self) =
       (case parent_rt self of
          Some p \<Rightarrow> matmul (RT.rt (RT_transpose p)) (RT.rt (RT_transpose self))
        | None \<Rightarrow> identity4)"
  by (simp add: RT_copy_def RT_transpose_def RT_str_matrix_def RT_matmul_def Let_def
        split: option.split)

theorem copy_transpose_drop_local_flag_witness:
  "is_rt_local (RT (homog (RV 0 1 0) (RV (- 1) 0 0) (RV 0 0 1) (RV 1 2 3)) None True)
   \<and> RT_str_matrix (RT (homog (RV 0 1 0) (RV (- 1) 0 0) (RV 0 0 1) (RV 1 2 3)) None True)
       = homog (RV 0 1 0) (RV (- 1) 0 0) (RV 0 0 1) (RV 1 2 3)
   \<and> \<not> is_rt_local (RT_copy (RT (homog (RV 0 1 0) (RV (- 1) 0 0) (RV 0 0 1) (RV 1 2 3)) None True))
   \<and> \<not> is_rt_local (RT_transpose (RT (homog (RV 0 1 0) (RV (- 1) 0 0) (RV 0 0 1) (RV 1 2 3)) None True))
   \<and> RT_str_matrix (RT_copy (RT (homog (RV 0 1 0) (RV (- 1) 0 0) (RV 0 0 1) (RV 1 2 3)) None True))
       = identity4"
  using copy_transpose_drop_local_flag
          [of "RT (homog (RV 0 1 0) (RV (- 1) 0 0) (RV 0 0 1) (RV 1 2 3)) None True"]
  by (simp add: RT_str_matrix_def)

text \<open>
  C1, as the code has it.  \<open>__str__\<close> renders the stored matrix when \<open>is_rt_local\<close> is
  true.  When it is false and there is a parent it renders \<open>parent.transpose @ rt\<close>; when
  it is false and there is no parent it renders the identity matrix, whatever the stored
  matrix is.
\<close>

theorem str_matrix_by_flag_and_parent:
  "RT_str_matrix self =
     (if is_rt_local self then RT.rt self
      else case parent_rt self of
             Some p \<Rightarrow> matmul (RT.rt (RT_transpose p)) (RT.rt self)
           | None \<Rightarrow> identity4)"
  by (simp add: RT_str_matrix_def RT_matmul_def split: option.split)

theorem str_matrix_by_flag_and_parent_witness:
  "RT_str_matrix
     (RT (homog (RV 1 0 0) (RV 0 1 0) (RV 0 0 1) (RV 1 2 3))
        (Some (RT (homog (RV 0 1 0) (RV (- 1) 0 0) (RV 0 0 1) (RV 1 0 0)) None False)) False)
   = homog (RV 0 (- 1) 0) (RV 1 0 0) (RV 0 0 1) (RV 2 0 3)"
  using str_matrix_by_flag_and_parent
          [of "RT (homog (RV 1 0 0) (RV 0 1 0) (RV 0 0 1) (RV 1 2 3))
                 (Some (RT (homog (RV 0 1 0) (RV (- 1) 0 0) (RV 0 0 1) (RV 1 0 0)) None False)) False"]
  by (simp add: RT_transpose_def RT_copy_def Let_def)

text \<open>The claim C1 says that a non-local RT without a parent renders its own matrix.
  The RT with the translation (1, 2, 3), no parent and \<open>is_rt_local = False\<close> renders the
  identity, which is not its matrix.\<close>

theorem str_parentless_counterexample:
  "RT_str_matrix (RT (homog (RV 1 0 0) (RV 0 1 0) (RV 0 0 1) (RV 1 2 3)) None False) = identity4
   \<and> RT_str_matrix (RT (homog (RV 1 0 0) (RV 0 1 0) (RV 0 0 1) (RV 1 2 3)) None False)
       \<noteq> RT.rt (RT (homog (RV 1 0 0) (RV 0 1 0) (RV 0 0 1) (RV 1 2 3)) None False)"
  by (simp add: RT_str_matrix_def identity4_def)

subsection \<open>transpose in memory\<close>

lemma mat_T_involution: "mat_T (mat_T m) = m"
proof (cases m)
  case (M4 r0 r1 r2 r3)
  then show ?thesis
    by (cases r0; cases r1; cases r2; cases r3) simp
qed

lemma read_write_view: "read_view (write_view h v m) v = m"
  by (simp add: read_view_def write_view_def mat_T_involution)

lemma write_view_other: "a \<noteq> buffer v \<Longrightarrow> cells (write_view h v m) a = cells h a"
  by (simp add: write_view_def)

text \<open>\<open>transpose\<close> in memory makes one new buffer, writes into no other, and the
  array of the object it returns shows the matrix of \<open>RT_transpose\<close>.\<close>

lemma transpose_in_memory_result:
  assumes run: "transpose_in_memory self h = (out, h')"
  shows "buffer (rt_view out) = next_free h"
    and "\<And>a. a \<noteq> next_free h \<Longrightarrow> cells h' a = cells h a"
    and "read_view h' (rt_view out) = RT.rt (RT_transpose (RT (read_view h (rt_view self)) p l))"
    and "local_flag out = False" and "parent_object out = parent_object self"
proof -
  define v1 where "v1 = \<lparr>buffer = next_free h, transposed = False\<rparr>"
  define h1 where "h1 = h\<lparr>cells := (cells h)(next_free h := read_view h (rt_view self)),
                            next_free := Suc (next_free h)\<rparr>"
  define v2 where "v2 = array_T v1"
  define m1 where "m1 = read_view h1 v2"
  define h2 where "h2 = write_view h1 v2 (set_col 3 (neg_block_matvec m1 (get_row3 m1)) m1)"
  define h3 where "h3 = write_view h2 v2 (zero_row3 (read_view h2 v2))"
  have res: "out = RT_object v2 (parent_object self) False" "h' = h3"
    using run
    by (simp_all add: transpose_in_memory_def copy_array_def Let_def v1_def h1_def v2_def m1_def
          h2_def h3_def)
  have b: "buffer v2 = next_free h"
    by (simp add: v2_def v1_def array_T_def)
  show "buffer (rt_view out) = next_free h"
    by (simp add: res b)
  show "cells h' a = cells h a" if "a \<noteq> next_free h" for a
    using that by (simp add: res h3_def h2_def write_view_other b h1_def)
  have m1: "m1 = mat_T (read_view h (rt_view self))"
    by (simp add: m1_def read_view_def v2_def v1_def array_T_def h1_def)
  have "read_view h3 v2 = zero_row3 (set_col 3 (neg_block_matvec m1 (get_row3 m1)) m1)"
    by (simp add: h3_def h2_def read_write_view)
  then show "read_view h' (rt_view out) = RT.rt (RT_transpose (RT (read_view h (rt_view self)) p l))"
    by (simp add: res m1 RT_transpose_def RT_copy_def Let_def)
  show "local_flag out = False" and "parent_object out = parent_object self"
    by (simp_all add: res)
qed

text \<open>
  C7.  For every rigid transform \<open>T\<close> (the rotation block has orthonormal columns \<open>cx\<close>,
  \<open>cy\<close>, \<open>cz\<close>, the translation is \<open>t\<close>, the bottom row is (0, 0, 0, 1)), \<open>transpose\<close>
  returns the transform whose rotation block is the transposed block and whose translation
  is \<open>- R\<^sup>T t\<close>, and \<open>transpose\<close> applied twice gives the matrix of \<open>T\<close> back.
  In memory, for an object whose array shows the matrix of \<open>T\<close>, \<open>transpose\<close> returns an
  object with an array on a new buffer that shows that result, and the array of the
  object itself shows afterwards what it showed before.
\<close>

theorem transpose_inverts_rigid_transform:
  assumes T: "RT.rt T = homog cx cy cz t" and o: "orthonormal cx cy cz"
  shows "RT.rt (RT_transpose T) =
           homog (RV (vx cx) (vx cy) (vx cz)) (RV (vy cx) (vy cy) (vy cz))
             (RV (vz cx) (vz cy) (vz cz)) (RV (- rdot cx t) (- rdot cy t) (- rdot cz t))
         \<and> RT.rt (RT_transpose (RT_transpose T)) = RT.rt T
         \<and> (\<forall>self h out h'.
               buffer (rt_view self) < next_free h \<and> read_view h (rt_view self) = RT.rt T
               \<and> transpose_in_memory self h = (out, h')
             \<longrightarrow> read_view h' (rt_view out) = RT.rt (RT_transpose T)
                 \<and> read_view h' (rt_view self) = RT.rt T
                 \<and> buffer (rt_view out) \<noteq> buffer (rt_view self))"
proof -
  obtain x0 x1 x2 where cx: "cx = RV x0 x1 x2" by (cases cx)
  obtain y0 y1 y2 where cy: "cy = RV y0 y1 y2" by (cases cy)
  obtain z0 z1 z2 where cz: "cz = RV z0 z1 z2" by (cases cz)
  obtain t0 t1 t2 where t: "t = RV t0 t1 t2" by (cases t)
  define s where "s = RV (- rdot (RV x0 x1 x2) t) (- rdot (RV y0 y1 y2) t) (- rdot (RV z0 z1 z2) t)"
  have T': "RT.rt T = homog (RV x0 x1 x2) (RV y0 y1 y2) (RV z0 z1 z2) t"
    using T cx cy cz by simp
  have one: "RT.rt (RT_transpose T) = homog (RV x0 y0 z0) (RV x1 y1 z1) (RV x2 y2 z2) s"
    unfolding s_def by (rule transpose_homog [OF T'])
  have two: "RT.rt (RT_transpose (RT_transpose T)) =
     homog (RV x0 x1 x2) (RV y0 y1 y2) (RV z0 z1 z2)
       (RV (- rdot (RV x0 y0 z0) s) (- rdot (RV x1 y1 z1) s) (- rdot (RV x2 y2 z2) s))"
    by (rule transpose_homog [OF one])
  have rows: "x0*x0 + y0*y0 + z0*z0 = 1 \<and> x1*x1 + y1*y1 + z1*z1 = 1 \<and> x2*x2 + y2*y2 + z2*z2 = 1
       \<and> x0*x1 + y0*y1 + z0*z1 = 0 \<and> x0*x2 + y0*y2 + z0*z2 = 0 \<and> x1*x2 + y1*y2 + z1*z2 = 0"
    using o unfolding orthonormal_def cx cy cz
    by (intro orthonormal_columns_rows) simp_all
  have b0: "- rdot (RV x0 y0 z0) s = t0"
  proof -
    have "- rdot (RV x0 y0 z0) s
        = (x0*x0 + y0*y0 + z0*z0) * t0 + (x0*x1 + y0*y1 + z0*z1) * t1 + (x0*x2 + y0*y2 + z0*z2) * t2"
      unfolding s_def t by (simp add: algebra_simps)
    then show ?thesis using rows by simp
  qed
  have b1: "- rdot (RV x1 y1 z1) s = t1"
  proof -
    have "- rdot (RV x1 y1 z1) s
        = (x0*x1 + y0*y1 + z0*z1) * t0 + (x1*x1 + y1*y1 + z1*z1) * t1 + (x1*x2 + y1*y2 + z1*z2) * t2"
      unfolding s_def t by (simp add: algebra_simps)
    then show ?thesis using rows by simp
  qed
  have b2: "- rdot (RV x2 y2 z2) s = t2"
  proof -
    have "- rdot (RV x2 y2 z2) s
        = (x0*x2 + y0*y2 + z0*z2) * t0 + (x1*x2 + y1*y2 + z1*z2) * t1 + (x2*x2 + y2*y2 + z2*z2) * t2"
      unfolding s_def t by (simp add: algebra_simps)
    then show ?thesis using rows by simp
  qed
  have "RT.rt (RT_transpose (RT_transpose T)) =
          homog (RV x0 x1 x2) (RV y0 y1 y2) (RV z0 z1 z2) (RV t0 t1 t2)"
    using two by (simp only: b0 b1 b2)
  then have twice: "RT.rt (RT_transpose (RT_transpose T)) = RT.rt T"
    using T' t by simp
  have "RT.rt (RT_transpose T) =
           homog (RV (vx cx) (vx cy) (vx cz)) (RV (vy cx) (vy cy) (vy cz))
             (RV (vz cx) (vz cy) (vz cz)) (RV (- rdot cx t) (- rdot cy t) (- rdot cz t))"
    using one by (simp add: s_def cx cy cz)
  moreover have "read_view h' (rt_view out) = RT.rt (RT_transpose T)
                 \<and> read_view h' (rt_view self) = RT.rt T
                 \<and> buffer (rt_view out) \<noteq> buffer (rt_view self)"
    if a: "buffer (rt_view self) < next_free h \<and> read_view h (rt_view self) = RT.rt T
               \<and> transpose_in_memory self h = (out, h')" for self h out h'
  proof -
    from a have run: "transpose_in_memory self h = (out, h')" by simp
    note r = transpose_in_memory_result [OF run]
    have "read_view h' (rt_view out)
            = RT.rt (RT_transpose (RT (read_view h (rt_view self)) (parent_rt T) (is_rt_local T)))"
      by (rule r(3))
    with a have 1: "read_view h' (rt_view out) = RT.rt (RT_transpose T)"
      by simp
    from a r(1) have 3: "buffer (rt_view out) \<noteq> buffer (rt_view self)" by simp
    from a have "cells h' (buffer (rt_view self)) = cells h (buffer (rt_view self))"
      by (intro r(2)) simp
    then have "read_view h' (rt_view self) = read_view h (rt_view self)"
      by (simp add: read_view_def)
    with a 1 3 show ?thesis by simp
  qed
  ultimately show ?thesis using twice by blast
qed

theorem transpose_inverts_rigid_transform_witness:
  "orthonormal (RV 0 1 0) (RV (- 1) 0 0) (RV 0 0 1)
   \<and> RT.rt (RT_transpose (RT (homog (RV 0 1 0) (RV (- 1) 0 0) (RV 0 0 1) (RV 1 2 3)) None False))
       = homog (RV 0 (- 1) 0) (RV 1 0 0) (RV 0 0 1) (RV (- 2) 1 (- 3))
   \<and> RT.rt (RT_transpose (RT_transpose
        (RT (homog (RV 0 1 0) (RV (- 1) 0 0) (RV 0 0 1) (RV 1 2 3)) None False)))
       = homog (RV 0 1 0) (RV (- 1) 0 0) (RV 0 0 1) (RV 1 2 3)
   \<and> buffer (rt_view example_RT_object) < next_free example_memory
   \<and> read_view example_memory (rt_view example_RT_object)
       = homog (RV 0 1 0) (RV (- 1) 0 0) (RV 0 0 1) (RV 1 2 3)
   \<and> read_view (snd (transpose_in_memory example_RT_object example_memory))
         (rt_view (fst (transpose_in_memory example_RT_object example_memory)))
       = homog (RV 0 (- 1) 0) (RV 1 0 0) (RV 0 0 1) (RV (- 2) 1 (- 3))
   \<and> read_view (snd (transpose_in_memory example_RT_object example_memory))
         (rt_view example_RT_object)
       = homog (RV 0 1 0) (RV (- 1) 0 0) (RV 0 0 1) (RV 1 2 3)"
proof -
  have o: "orthonormal (RV 0 1 0) (RV (- 1) 0 0) (RV 0 0 1)"
    by (simp add: orthonormal_def)
  have T: "RT.rt (RT (homog (RV 0 1 0) (RV (- 1) 0 0) (RV 0 0 1) (RV 1 2 3)) None False)
             = homog (RV 0 1 0) (RV (- 1) 0 0) (RV 0 0 1) (RV 1 2 3)"
    by simp
  note t = transpose_inverts_rigid_transform [OF T o]
  have m: "buffer (rt_view example_RT_object) < next_free example_memory"
    "read_view example_memory (rt_view example_RT_object)
       = RT.rt (RT (homog (RV 0 1 0) (RV (- 1) 0 0) (RV 0 0 1) (RV 1 2 3)) None False)"
    by (simp_all add: example_RT_object_def example_memory_def read_view_def)
  have run: "transpose_in_memory example_RT_object example_memory
               = (fst (transpose_in_memory example_RT_object example_memory),
                  snd (transpose_in_memory example_RT_object example_memory))"
    by simp
  from t m run
  have "read_view (snd (transpose_in_memory example_RT_object example_memory))
          (rt_view (fst (transpose_in_memory example_RT_object example_memory)))
        = RT.rt (RT_transpose (RT (homog (RV 0 1 0) (RV (- 1) 0 0) (RV 0 0 1) (RV 1 2 3)) None False))
      \<and> read_view (snd (transpose_in_memory example_RT_object example_memory))
          (rt_view example_RT_object)
        = RT.rt (RT (homog (RV 0 1 0) (RV (- 1) 0 0) (RV 0 0 1) (RV 1 2 3)) None False)"
    by blast
  with o conjunct1 [OF t] conjunct1 [OF conjunct2 [OF t]] m show ?thesis by simp
qed

section \<open>Properties of from_markers\<close>

lemma reorder_axes_cases:
  assumes "Axis.name a0 \<noteq> Axis.name a1"
  shows "(Axis.name a1 = next_axis (Axis.name a0)
            \<and> reorder_axes a0 a1 = (a0, a1, next_axis (Axis.name a1)))
       \<or> (Axis.name a0 = next_axis (Axis.name a1)
            \<and> reorder_axes a0 a1 = (a1, a0, next_axis (Axis.name a0)))"
  using assms
  by (cases "Axis.name a0"; cases "Axis.name a1") (simp_all add: reorder_axes_def)

lemma RT_from_markers_eq:
  assumes "Axis.name a0 \<noteq> Axis.name a1" and "reorder_axes a0 a1 = (f, s, t)"
  shows "RT_from_markers og (a0, a1, keep) q =
     (if keep = Axis.name f then
        Inr (RT (frame_matrix (position og)
                   (Name_value (Axis.name f)) (axis_vector f)
                   (Name_value (Axis.name s)) (cross (cross (axis_vector f) (axis_vector s)) (axis_vector f))
                   (Name_value t) (cross (axis_vector f) (axis_vector s))) q False)
      else if keep = Axis.name s then
        Inr (RT (frame_matrix (position og)
                   (Name_value (Axis.name f)) (cross (axis_vector s) (cross (axis_vector f) (axis_vector s)))
                   (Name_value (Axis.name s)) (axis_vector s)
                   (Name_value t) (cross (axis_vector f) (axis_vector s))) q False)
      else Inl ValueError_axis_to_keep)"
  using assms
  by (simp add: RT_from_markers_def Axis_axis_def ezc3d_found_def Let_def frame_matrix_def
        normalize3_def axis_vector_def)

lemma RT_from_markers_any_parent:
  "RT_from_markers og ax None = Inr r \<Longrightarrow> RT_from_markers og ax q = Inr (RT (RT.rt r) q False)"
proof -
  assume a: "RT_from_markers og ax None = Inr r"
  obtain a0 a1 keep where ax: "ax = (a0, a1, keep)" by (cases ax)
  obtain f s t where re: "reorder_axes a0 a1 = (f, s, t)" by (cases "reorder_axes a0 a1")
  have ne: "Axis.name a0 \<noteq> Axis.name a1"
    using a ax by (auto simp: RT_from_markers_def)
  show ?thesis
    using a unfolding ax RT_from_markers_eq [OF ne re]
    by (auto split: if_splits)
qed

section \<open>Properties of the assembly\<close>

lemma list_index_None: "list_index xs x = None \<longleftrightarrow> x \<notin> set xs"
  by (induction xs) auto

lemma list_index_Some: "list_index xs x = Some i \<Longrightarrow> i < length xs \<and> xs ! i = x"
  by (induction xs arbitrary: i) (auto split: if_splits)

lemma list_index_in_set: "x \<in> set xs \<Longrightarrow> \<exists>i. list_index xs x = Some i"
  using list_index_None [of xs x] by (cases "list_index xs x") auto

lemma bind_markers_fields:
  "bind_markers c r mks seg = Inr seg' \<Longrightarrow>
     Segment.name seg' = Segment.name seg \<and> Segment.parent_name seg' = Segment.parent_name seg
     \<and> Segment.rt seg' = Segment.rt seg
     \<and> length (Segment.markers seg') = length (Segment.markers seg) + length mks"
proof (induction mks arbitrary: seg)
  case Nil
  then show ?case by simp
next
  case (Cons mk mks)
  then show ?case
    by (auto simp: Segment_add_marker_def split: sum.splits)
qed

lemma collapse_segment_Inr:
  assumes "collapse_segment c segs s = Inr segs'"
  shows "\<exists>seg. segs' = segs @ [seg] \<and> Segment.name seg = SegmentGeneric.name s
           \<and> Segment.parent_name seg = SegmentGeneric.parent_name s
           \<and> length (Segment.markers seg) = length (SegmentGeneric.markers s)"
  using assms
  by (auto simp: collapse_segment_def Segment_init_def split: sum.splits
           dest!: bind_markers_fields)

lemma collapse_append:
  "collapse c (xs @ ys) segs =
     (case collapse c xs segs of Inl e \<Rightarrow> Inl e | Inr segs' \<Rightarrow> collapse c ys segs')"
  by (induction xs arbitrary: segs) (auto split: sum.splits)

lemma collapse_names:
  "collapse c gs segs = Inr out \<Longrightarrow>
     map Segment.name out = map Segment.name segs @ map SegmentGeneric.name gs
     \<and> map Segment.parent_name out = map Segment.parent_name segs @ map SegmentGeneric.parent_name gs
     \<and> map (\<lambda>s. length (Segment.markers s)) out =
         map (\<lambda>s. length (Segment.markers s)) segs @ map (\<lambda>s. length (SegmentGeneric.markers s)) gs"
proof (induction gs arbitrary: segs)
  case Nil
  then show ?case by simp
next
  case (Cons s gs)
  from Cons.prems obtain segs' where
    s: "collapse_segment c segs s = Inr segs'" and rest: "collapse c gs segs' = Inr out"
    by (auto split: sum.splits)
  from collapse_segment_Inr [OF s] obtain seg where
    seg: "segs' = segs @ [seg]" "Segment.name seg = SegmentGeneric.name s"
      "Segment.parent_name seg = SegmentGeneric.parent_name s"
      "length (Segment.markers seg) = length (SegmentGeneric.markers s)"
    by blast
  from Cons.IH [OF rest] seg show ?case by simp
qed

text \<open>A step that fails after a prefix has been assembled is the result of the loop.\<close>

lemma collapse_fails_at:
  assumes i: "i < length gs"
    and pre: "collapse c (take i gs) [] = Inr segs"
    and step: "collapse_segment c segs (gs ! i) = Inl e"
  shows "collapse c gs [] = Inl e"
proof -
  have "gs = take i gs @ (gs ! i) # drop (Suc i) gs"
    using i by (simp add: id_take_nth_drop)
  then have "collapse c gs [] = collapse c (take i gs @ (gs ! i) # drop (Suc i) gs) []"
    by simp
  also have "\<dots> = Inl e"
    by (simp add: collapse_append pre step)
  finally show ?thesis .
qed

text \<open>
  C4.  \<open>generate_personalized\<close> writes all or nothing.  When a step of a segment (the
  parent lookup, the binding of the frame or of a marker) raises after the segments
  before it have been assembled, the call ends with that exception and the files are as
  they were.  In every case the call either raises and leaves the files as they were, or
  returns after writing to \<open>save_path\<close> a chain with one segment for each generic segment.
\<close>

theorem generate_personalized_all_or_nothing:
  "(\<forall>i segs e. i < length (KinematicModelGeneric.segments self)
        \<and> collapse c (take i (map snd (KinematicModelGeneric.segments self))) [] = Inr segs
        \<and> collapse_segment c segs (map snd (KinematicModelGeneric.segments self) ! i) = Inl e
      \<longrightarrow> generate_personalized self c save_path fs = (Inl e, fs))
   \<and> ((\<exists>e. generate_personalized self c save_path fs = (Inl e, fs))
      \<or> (\<exists>segs. generate_personalized self c save_path fs
                    = (Inr (), fs(save_path \<mapsto> \<lparr>KinematicChain.segments = segs\<rparr>))
           \<and> collapse c (map snd (KinematicModelGeneric.segments self)) [] = Inr segs
           \<and> length segs = length (KinematicModelGeneric.segments self)))"
proof -
  define gs where "gs = map snd (KinematicModelGeneric.segments self)"
  have first: "generate_personalized self c save_path fs = (Inl e, fs)"
    if "i < length (KinematicModelGeneric.segments self)"
      and "collapse c (take i gs) [] = Inr segs"
      and "collapse_segment c segs (gs ! i) = Inl e" for i segs e
  proof -
    have "collapse c gs [] = Inl e"
      using that by (intro collapse_fails_at [where i = i and segs = segs]) (simp_all add: gs_def)
    then show ?thesis
      by (simp add: generate_personalized_def gs_def)
  qed
  have second: "(\<exists>e. generate_personalized self c save_path fs = (Inl e, fs))
      \<or> (\<exists>segs. generate_personalized self c save_path fs
                    = (Inr (), fs(save_path \<mapsto> \<lparr>KinematicChain.segments = segs\<rparr>))
           \<and> collapse c gs [] = Inr segs
           \<and> length segs = length (KinematicModelGeneric.segments self))"
  proof (cases "collapse c gs []")
    case (Inl e)
    then show ?thesis by (simp add: generate_personalized_def gs_def)
  next
    case (Inr segs)
    from collapse_names [OF Inr] have "length (map Segment.name segs) = length (map SegmentGeneric.name gs)"
      by simp
    then have "length segs = length (KinematicModelGeneric.segments self)"
      by (simp add: gs_def)
    with Inr show ?thesis
      by (simp add: generate_personalized_def gs_def KinematicChain_write_def)
  qed
  from first second show ?thesis
    unfolding gs_def by blast
qed

lemma member_set: "List.member xs x \<longleftrightarrow> x \<in> set xs"
  by (induction xs) auto

text \<open>The recursive condition says what its name says.\<close>

lemma parents_precede_iff:
  "parents_precede seen gs \<longleftrightarrow>
     (\<forall>i < length gs. SegmentGeneric.parent_name (gs ! i) = '''' \<or>
        SegmentGeneric.parent_name (gs ! i) \<in> set seen \<union> set (map SegmentGeneric.name (take i gs)))"
proof (induction gs arbitrary: seen)
  case Nil
  then show ?case by simp
next
  case (Cons s gs)
  show ?case
  proof
    assume l: "parents_precede seen (s # gs)"
    show "\<forall>i < length (s # gs). SegmentGeneric.parent_name ((s # gs) ! i) = '''' \<or>
        SegmentGeneric.parent_name ((s # gs) ! i) \<in> set seen \<union> set (map SegmentGeneric.name (take i (s # gs)))"
    proof (intro allI impI)
      fix i assume i: "i < length (s # gs)"
      show "SegmentGeneric.parent_name ((s # gs) ! i) = '''' \<or>
        SegmentGeneric.parent_name ((s # gs) ! i) \<in> set seen \<union> set (map SegmentGeneric.name (take i (s # gs)))"
      proof (cases i)
        case 0
        with l show ?thesis by (simp add: member_set)
      next
        case (Suc j)
        with i l Cons.IH [of "seen @ [SegmentGeneric.name s]"] show ?thesis by auto
      qed
    qed
  next
    assume r: "\<forall>i < length (s # gs). SegmentGeneric.parent_name ((s # gs) ! i) = '''' \<or>
        SegmentGeneric.parent_name ((s # gs) ! i) \<in> set seen \<union> set (map SegmentGeneric.name (take i (s # gs)))"
    from r have h0: "SegmentGeneric.parent_name s = '''' \<or> SegmentGeneric.parent_name s \<in> set seen"
      by force
    have "\<forall>i < length gs. SegmentGeneric.parent_name (gs ! i) = '''' \<or>
        SegmentGeneric.parent_name (gs ! i) \<in> set (seen @ [SegmentGeneric.name s]) \<union> set (map SegmentGeneric.name (take i gs))"
    proof (intro allI impI)
      fix i assume "i < length gs"
      with r have "SegmentGeneric.parent_name ((s # gs) ! Suc i) = '''' \<or>
        SegmentGeneric.parent_name ((s # gs) ! Suc i) \<in> set seen \<union> set (map SegmentGeneric.name (take (Suc i) (s # gs)))"
        by (metis Suc_less_eq length_Cons)
      then show "SegmentGeneric.parent_name (gs ! i) = '''' \<or>
        SegmentGeneric.parent_name (gs ! i) \<in> set (seen @ [SegmentGeneric.name s]) \<union> set (map SegmentGeneric.name (take i gs))"
        by auto
    qed
    with Cons.IH [of "seen @ [SegmentGeneric.name s]"] h0 show "parents_precede seen (s # gs)"
      by (simp add: member_set)
  qed
qed

lemma Marker_from_data_any_parent:
  "returns (Marker_from_data c n ns p None t a) \<Longrightarrow> returns (Marker_from_data c n ns p q t a)"
  by (cases "indices_in_c3d c ns") (auto simp: Marker_from_data_def Let_def split: if_splits)

lemma to_rt_any_parent:
  "returns (to_rt g c None) \<Longrightarrow> returns (to_rt g c q)"
proof -
  assume "returns (to_rt g c None)"
  then obtain r where "to_rt g c None = Inr r"
    by (cases "to_rt g c None") auto
  then have "to_rt g c q = Inr (RT (RT.rt r) q False)"
    by (auto simp: to_rt_def split: sum.splits prod.splits dest: RT_from_markers_any_parent)
  then show ?thesis by simp
qed

lemma bind_markers_returns:
  "list_all (\<lambda>mk. returns (to_marker mk c None)) mks \<Longrightarrow> returns (bind_markers c r mks seg)"
proof (induction mks arbitrary: seg)
  case Nil
  then show ?case by simp
next
  case (Cons mk mks)
  from Cons.prems have "returns (to_marker mk c (Some r))"
    by (simp add: to_marker_def Marker_from_data_any_parent)
  then obtain m where "to_marker mk c (Some r) = Inr m"
    by (cases "to_marker mk c (Some r)") auto
  with Cons show ?case by simp
qed

lemma collapse_segment_returns:
  assumes p: "SegmentGeneric.parent_name s = '''' \<or> SegmentGeneric.parent_name s \<in> set (map Segment.name segs)"
    and f: "frame_binds c s" and m: "markers_bind c s"
  shows "returns (collapse_segment c segs s)"
proof -
  have "\<exists>pi. parent_lookup segs (SegmentGeneric.parent_name s) = Inr pi"
  proof (cases "SegmentGeneric.parent_name s = ''''")
    case True
    then show ?thesis by (simp add: parent_lookup_def)
  next
    case False
    with p have "SegmentGeneric.parent_name s \<in> set (map Segment.name segs)" by simp
    from list_index_in_set [OF this] obtain i where
      "list_index (map Segment.name segs) (SegmentGeneric.parent_name s) = Some i" ..
    with False show ?thesis by (simp add: parent_lookup_def)
  qed
  then obtain pi where pi: "parent_lookup segs (SegmentGeneric.parent_name s) = Inr pi" ..
  define q where "q = (case pi of Some i \<Rightarrow> Segment.rt (segs ! i) | None \<Rightarrow> None)"
  have "returns (case SegmentGeneric.rt s of None \<Rightarrow> Inr RT_default | Some g \<Rightarrow> to_rt g c q)"
    using f by (auto simp: frame_binds_def split: option.splits intro: to_rt_any_parent)
  then obtain r where r: "(case SegmentGeneric.rt s of None \<Rightarrow> Inr RT_default | Some g \<Rightarrow> to_rt g c q) = Inr r"
    by (cases "case SegmentGeneric.rt s of None \<Rightarrow> Inr RT_default | Some g \<Rightarrow> to_rt g c q") auto
  have "returns (bind_markers c r (SegmentGeneric.markers s)
          (Segment_init (SegmentGeneric.name s) (SegmentGeneric.parent_name s) (Some r)
             (SegmentGeneric.seg_translations s) (SegmentGeneric.seg_rotations s)))"
    using m by (simp add: markers_bind_def bind_markers_returns)
  then obtain seg where "bind_markers c r (SegmentGeneric.markers s)
          (Segment_init (SegmentGeneric.name s) (SegmentGeneric.parent_name s) (Some r)
             (SegmentGeneric.seg_translations s) (SegmentGeneric.seg_rotations s)) = Inr seg"
    by (cases "bind_markers c r (SegmentGeneric.markers s)
          (Segment_init (SegmentGeneric.name s) (SegmentGeneric.parent_name s) (Some r)
             (SegmentGeneric.seg_translations s) (SegmentGeneric.seg_rotations s))") auto
  with pi r [unfolded q_def] show ?thesis
    by (simp add: collapse_segment_def)
qed

lemma collapse_returns:
  assumes "parents_precede (map Segment.name segs) gs"
    and "list_all (frame_binds c) gs" and "list_all (markers_bind c) gs"
  shows "returns (collapse c gs segs)"
  using assms
proof (induction gs arbitrary: segs)
  case Nil
  then show ?case by simp
next
  case (Cons s gs)
  from Cons.prems have "returns (collapse_segment c segs s)"
    by (intro collapse_segment_returns) (auto simp: member_set)
  then obtain segs' where s': "collapse_segment c segs s = Inr segs'"
    by (cases "collapse_segment c segs s") auto
  from collapse_segment_Inr [OF s'] have "map Segment.name segs' = map Segment.name segs @ [SegmentGeneric.name s]"
    by auto
  with Cons.prems have "parents_precede (map Segment.name segs') gs"
    by simp
  with Cons.IH [of segs'] Cons.prems s' show ?case by simp
qed

lemma collapse_segment_unknown_parent:
  assumes "SegmentGeneric.parent_name s \<noteq> ''''"
    and "SegmentGeneric.parent_name s \<notin> set (map Segment.name segs)"
  shows "collapse_segment c segs s = Inl (ValueError_parent_not_in_list (SegmentGeneric.parent_name s))"
  using assms list_index_None [of "map Segment.name segs" "SegmentGeneric.parent_name s"]
  by (simp add: collapse_segment_def parent_lookup_def)

lemma collapse_raises:
  assumes "\<not> parents_precede (map Segment.name segs) gs"
  shows "\<exists>e. collapse c gs segs = Inl e"
  using assms
proof (induction gs arbitrary: segs)
  case Nil
  then show ?case by simp
next
  case (Cons s gs)
  show ?case
  proof (cases "collapse_segment c segs s")
    case (Inl e)
    then show ?thesis by simp
  next
    case (Inr segs')
    from collapse_segment_Inr [OF Inr] have n: "map Segment.name segs' = map Segment.name segs @ [SegmentGeneric.name s]"
      by auto
    have ok: "SegmentGeneric.parent_name s = '''' \<or> SegmentGeneric.parent_name s \<in> set (map Segment.name segs)"
      using Inr collapse_segment_unknown_parent [of s segs c] by auto
    with Cons.prems have "\<not> parents_precede (map Segment.name segs @ [SegmentGeneric.name s]) gs"
      by (auto simp: member_set)
    then have "\<not> parents_precede (map Segment.name segs') gs"
      unfolding n .
    from Cons.IH [OF this] Inr show ?thesis by simp
  qed
qed

text \<open>
  C3, as the code has it.  Let \<open>gs\<close> be the generic segments in declaration order.
  \<^item> If some parent name that is not empty is not the name of a segment declared earlier,
    \<open>generate_personalized\<close> raises and writes nothing.  The exception is the
    \<open>ValueError\<close> of the parent lookup when the segments before the first such segment have
    been assembled; otherwise it is the exception of an earlier binding.
  \<^item> If every parent name that is not empty is the name of a segment declared earlier,
    and every frame recipe and every marker binds against the trial, the call returns,
    and the chain it writes lists the segments in declaration order.
  \<^item> Whenever the loop returns a chain, its segments are in declaration order.
\<close>

theorem generate_personalized_parent_order:
  assumes gs: "gs = map snd (KinematicModelGeneric.segments self)"
  shows "(\<not> parents_precede [] gs \<longrightarrow>
            (\<exists>e. generate_personalized self c save_path fs = (Inl e, fs)))
       \<and> (\<forall>i segs. i < length gs \<and> collapse c (take i gs) [] = Inr segs
             \<and> SegmentGeneric.parent_name (gs ! i) \<noteq> ''''
             \<and> SegmentGeneric.parent_name (gs ! i) \<notin> set (map SegmentGeneric.name (take i gs))
           \<longrightarrow> generate_personalized self c save_path fs
                 = (Inl (ValueError_parent_not_in_list (SegmentGeneric.parent_name (gs ! i))), fs))
       \<and> (parents_precede [] gs \<and> list_all (frame_binds c) gs \<and> list_all (markers_bind c) gs \<longrightarrow>
            (\<exists>segs. generate_personalized self c save_path fs
                      = (Inr (), fs(save_path \<mapsto> \<lparr>KinematicChain.segments = segs\<rparr>))
                  \<and> map Segment.name segs = map SegmentGeneric.name gs))
       \<and> (\<forall>segs. collapse c gs [] = Inr segs \<longrightarrow>
            map Segment.name segs = map SegmentGeneric.name gs)"
proof (intro conjI impI allI)
  assume "\<not> parents_precede [] gs"
  then have "\<exists>e. collapse c gs [] = Inl e"
    using collapse_raises [of "[]" gs c] by simp
  then show "\<exists>e. generate_personalized self c save_path fs = (Inl e, fs)"
    by (auto simp: generate_personalized_def gs)
next
  fix i segs
  assume a: "i < length gs \<and> collapse c (take i gs) [] = Inr segs
             \<and> SegmentGeneric.parent_name (gs ! i) \<noteq> ''''
             \<and> SegmentGeneric.parent_name (gs ! i) \<notin> set (map SegmentGeneric.name (take i gs))"
  then have "map Segment.name segs = map SegmentGeneric.name (take i gs)"
    using collapse_names [of c "take i gs" "[]" segs] by simp
  with a have "collapse_segment c segs (gs ! i)
      = Inl (ValueError_parent_not_in_list (SegmentGeneric.parent_name (gs ! i)))"
    by (intro collapse_segment_unknown_parent) simp_all
  with a have "collapse c gs [] = Inl (ValueError_parent_not_in_list (SegmentGeneric.parent_name (gs ! i)))"
    by (intro collapse_fails_at [where i = i and segs = segs]) simp_all
  then show "generate_personalized self c save_path fs
                 = (Inl (ValueError_parent_not_in_list (SegmentGeneric.parent_name (gs ! i))), fs)"
    by (simp add: generate_personalized_def gs)
next
  assume a: "parents_precede [] gs \<and> list_all (frame_binds c) gs \<and> list_all (markers_bind c) gs"
  then have "returns (collapse c gs [])"
    by (intro collapse_returns) simp_all
  then obtain segs where segs: "collapse c gs [] = Inr segs"
    by (cases "collapse c gs []") auto
  from collapse_names [OF segs] have "map Segment.name segs = map SegmentGeneric.name gs"
    by simp
  with segs show "\<exists>segs. generate_personalized self c save_path fs
                      = (Inr (), fs(save_path \<mapsto> \<lparr>KinematicChain.segments = segs\<rparr>))
                  \<and> map Segment.name segs = map SegmentGeneric.name gs"
    by (auto simp: generate_personalized_def gs KinematicChain_write_def)
next
  fix segs
  assume "collapse c gs [] = Inr segs"
  from collapse_names [OF this] show "map Segment.name segs = map SegmentGeneric.name gs"
    by simp
qed

text \<open>The definitions that a concrete run unfolds.\<close>

lemmas run_defs =
  Marker_from_data_def ezc3d_found_def to_meter_def mean_of_markers_def mean_def nanmean_def
  identity4_def zeros44_def RT_matvec_def RT_transpose_def RT_copy_def RT_default_def Let_def
  to_marker_def to_axis_def to_rt_def RT_from_markers_def reorder_axes_def Axis_axis_def norm3_def
  anonymous_marker_def SegmentGeneric_set_rt_def SegmentGeneric_init_def
  SegmentGeneric_add_marker_def collapse_segment_def parent_lookup_def Segment_init_def
  Segment_add_marker_def frame_binds_def markers_bind_def

lemma example_model_binds:
  "parents_precede [] [example_pelvis, example_thigh]
   \<and> list_all (frame_binds example_trial) [example_pelvis, example_thigh]
   \<and> list_all (markers_bind example_trial) [example_pelvis, example_thigh]"
  by (simp add: run_defs example_trial_def example_pelvis_def example_thigh_def member_set)

lemma example_child_first_parent:
  "\<not> parents_precede [] [example_thigh, example_pelvis]
   \<and> SegmentGeneric.parent_name example_thigh = ''PELVIS''"
  by (simp add: run_defs example_thigh_def member_set)

theorem generate_personalized_parent_order_witness:
  "parents_precede [] (map snd (KinematicModelGeneric.segments example_model))
   \<and> list_all (frame_binds example_trial) (map snd (KinematicModelGeneric.segments example_model))
   \<and> list_all (markers_bind example_trial) (map snd (KinematicModelGeneric.segments example_model))
   \<and> (\<exists>segs. generate_personalized example_model example_trial ''subject.bioMod'' Map.empty
                = (Inr (), [''subject.bioMod'' \<mapsto> \<lparr>KinematicChain.segments = segs\<rparr>])
            \<and> map Segment.name segs = [''PELVIS'', ''THIGH''])
   \<and> \<not> parents_precede [] (map snd (KinematicModelGeneric.segments example_model_child_first))
   \<and> generate_personalized example_model_child_first example_trial ''subject.bioMod'' Map.empty
       = (Inl (ValueError_parent_not_in_list ''PELVIS''), Map.empty)"
proof -
  have g1: "[example_pelvis, example_thigh] = map snd (KinematicModelGeneric.segments example_model)"
    by (simp add: example_model_def)
  have g2: "[example_thigh, example_pelvis]
              = map snd (KinematicModelGeneric.segments example_model_child_first)"
    by (simp add: example_model_child_first_def)
  note t1 = generate_personalized_parent_order
              [OF g1, of example_trial "''subject.bioMod''" Map.empty]
  note t2 = generate_personalized_parent_order
              [OF g2, of example_trial "''subject.bioMod''" Map.empty]
  from t1 example_model_binds
  have ok: "\<exists>segs. generate_personalized example_model example_trial ''subject.bioMod'' Map.empty
                = (Inr (), [''subject.bioMod'' \<mapsto> \<lparr>KinematicChain.segments = segs\<rparr>])
            \<and> map Segment.name segs = map SegmentGeneric.name [example_pelvis, example_thigh]"
    by blast
  have "0 < length [example_thigh, example_pelvis]
        \<and> collapse example_trial (take 0 [example_thigh, example_pelvis]) [] = Inr []
        \<and> SegmentGeneric.parent_name ([example_thigh, example_pelvis] ! 0) \<noteq> ''''
        \<and> SegmentGeneric.parent_name ([example_thigh, example_pelvis] ! 0)
            \<notin> set (map SegmentGeneric.name (take 0 [example_thigh, example_pelvis]))"
    using example_child_first_parent by simp
  with t2 have "generate_personalized example_model_child_first example_trial ''subject.bioMod'' Map.empty
       = (Inl (ValueError_parent_not_in_list
                 (SegmentGeneric.parent_name ([example_thigh, example_pelvis] ! 0))), Map.empty)"
    by blast
  then have bad: "generate_personalized example_model_child_first example_trial ''subject.bioMod'' Map.empty
       = (Inl (ValueError_parent_not_in_list ''PELVIS''), Map.empty)"
    using example_child_first_parent by simp
  have names: "map SegmentGeneric.name [example_pelvis, example_thigh] = [''PELVIS'', ''THIGH'']"
    by (simp add: run_defs example_pelvis_def example_thigh_def)
  from ok names bad example_model_binds example_child_first_parent show ?thesis
    unfolding g1 [symmetric] g2 [symmetric] by simp
qed

text \<open>The claim C3 says that assembly succeeds whenever every parent is declared before
  its children.  The model with the single root segment PELVIS has no parent to resolve,
  and its assembly raises, for a marker that reads a label the trial does not have.\<close>

theorem assembly_with_parents_in_order_counterexample:
  "parents_precede [] (map snd (KinematicModelGeneric.segments example_model_unknown_label))
   \<and> generate_personalized example_model_unknown_label example_trial ''subject.bioMod'' Map.empty
       = (Inl (ValueError_label_not_in_list ''NOT_A_LABEL''), Map.empty)"
  by (simp add: generate_personalized_def example_model_unknown_label_def example_trial_def run_defs)

theorem generate_personalized_all_or_nothing_witness:
  "0 < length (KinematicModelGeneric.segments example_model_child_first)
   \<and> collapse example_trial
       (take 0 (map snd (KinematicModelGeneric.segments example_model_child_first))) [] = Inr []
   \<and> collapse_segment example_trial []
       (map snd (KinematicModelGeneric.segments example_model_child_first) ! 0)
       = Inl (ValueError_parent_not_in_list ''PELVIS'')
   \<and> generate_personalized example_model_child_first example_trial ''subject.bioMod''
        [''subject.bioMod'' \<mapsto> \<lparr>KinematicChain.segments = []\<rparr>]
       = (Inl (ValueError_parent_not_in_list ''PELVIS''),
          [''subject.bioMod'' \<mapsto> \<lparr>KinematicChain.segments = []\<rparr>])"
proof -
  have step: "collapse_segment example_trial []
       (map snd (KinematicModelGeneric.segments example_model_child_first) ! 0)
       = Inl (ValueError_parent_not_in_list ''PELVIS'')"
    by (simp add: example_model_child_first_def example_thigh_def run_defs)
  have pre: "0 < length (KinematicModelGeneric.segments example_model_child_first)
     \<and> collapse example_trial
       (take 0 (map snd (KinematicModelGeneric.segments example_model_child_first))) [] = Inr []"
    by (simp add: example_model_child_first_def)
  from pre step generate_personalized_all_or_nothing
         [of example_model_child_first example_trial "''subject.bioMod''"
             "[''subject.bioMod'' \<mapsto> \<lparr>KinematicChain.segments = []\<rparr>]"]
  have "generate_personalized example_model_child_first example_trial ''subject.bioMod''
        [''subject.bioMod'' \<mapsto> \<lparr>KinematicChain.segments = []\<rparr>]
       = (Inl (ValueError_parent_not_in_list ''PELVIS''),
          [''subject.bioMod'' \<mapsto> \<lparr>KinematicChain.segments = []\<rparr>])"
    by blast
  with pre step show ?thesis by simp
qed

section \<open>Properties of the anthropometric table\<close>

lemma rnorm_rsub_distance: "rnorm (rsub q p) = euclidean_distance q p"
  by (cases p; cases q) (simp add: rnorm_def euclidean_distance_def power2_eq_square)

lemma table_entry_tabulated:
  assumes "sx = ''male'' \<or> sx = ''female''"
    and "segment \<in> set tabulated_segments"
  shows "\<exists>p. table_entry sx segment = Some p"
proof -
  have male: "table_entry ''male'' segment = map_of table_male segment"
    and female: "table_entry ''female'' segment = map_of table_female segment"
    by (simp_all add: table_entry_def table_def)
  from assms(2) have "map_of table_male segment \<noteq> None" "map_of table_female segment \<noteq> None"
    by (auto simp: table_male_def table_female_def tabulated_segments_def)
  with assms(1) male female show ?thesis by auto
qed

text \<open>The lookup of the class finds the entry of the table, whatever the total mass.\<close>

lemma table_row_entry:
  "table_entry (sex self) segment = Some p \<Longrightarrow> table_row self segment = Inr p"
  by (cases "map_of table (sex self)") (simp_all add: table_entry_def table_row_def)

text \<open>
  C9.  For the two sexes and the eight segment names of the table, let \<open>p\<close> be the entry of
  the table under the sex of the subject and the segment name.  For every total mass,
  \<open>segment_mass\<close> is the mass fraction of \<open>p\<close> times the total mass.  When the two markers
  of \<open>p\<close> are markers of the model, \<open>segment_length\<close> is the Euclidean distance \<open>L\<close> of the
  positions of the distal and the proximal marker in the model at rest (all coordinates
  zero), and \<open>segment_moment_of_inertia\<close> is the triple
  \<open>(m (L r\<^sub>1)\<^sup>2, m (L r\<^sub>2)\<^sup>2, m (L r\<^sub>3)\<^sup>2)\<close> with \<open>m\<close> that segment mass and \<open>r\<^sub>1\<close>, \<open>r\<^sub>2\<close>, \<open>r\<^sub>3\<close> the
  radii of \<open>p\<close>.
\<close>

theorem deleva_mass_and_inertia:
  assumes sx: "sex self = ''male'' \<or> sex self = ''female''"
    and sg: "segment \<in> set tabulated_segments"
  shows "\<exists>p. table_entry (sex self) segment = Some p
     \<and> segment_mass self segment = Inr (Param.mass p * DeLeva.mass self)
     \<and> (\<forall>total. segment_mass (self\<lparr>DeLeva.mass := total\<rparr>) segment = Inr (Param.mass p * total))
     \<and> (\<forall>i j. list_index (markerNames (model self)) (fst (marker_names p)) = Some i
            \<and> list_index (markerNames (model self)) (snd (marker_names p)) = Some j
            \<and> i < length (biorbd_Model.markers (model self) (replicate (nbQ (model self)) 0))
            \<and> j < length (biorbd_Model.markers (model self) (replicate (nbQ (model self)) 0))
          \<longrightarrow>
            segment_length self segment =
              Inr (euclidean_distance
                     (biorbd_Model.markers (model self) (replicate (nbQ (model self)) 0) ! j)
                     (biorbd_Model.markers (model self) (replicate (nbQ (model self)) 0) ! i))
            \<and> segment_moment_of_inertia self segment =
              Inr (Param.mass p * DeLeva.mass self *
                     (euclidean_distance
                        (biorbd_Model.markers (model self) (replicate (nbQ (model self)) 0) ! j)
                        (biorbd_Model.markers (model self) (replicate (nbQ (model self)) 0) ! i)
                      * fst (radii p))\<^sup>2,
                   Param.mass p * DeLeva.mass self *
                     (euclidean_distance
                        (biorbd_Model.markers (model self) (replicate (nbQ (model self)) 0) ! j)
                        (biorbd_Model.markers (model self) (replicate (nbQ (model self)) 0) ! i)
                      * fst (snd (radii p)))\<^sup>2,
                   Param.mass p * DeLeva.mass self *
                     (euclidean_distance
                        (biorbd_Model.markers (model self) (replicate (nbQ (model self)) 0) ! j)
                        (biorbd_Model.markers (model self) (replicate (nbQ (model self)) 0) ! i)
                      * snd (snd (radii p)))\<^sup>2))"
proof -
  from table_entry_tabulated [OF sx sg] obtain p where e: "table_entry (sex self) segment = Some p" ..
  from e have p: "table_row self segment = Inr p"
    by (rule table_row_entry)
  have m: "segment_mass self segment = Inr (Param.mass p * DeLeva.mass self)"
    by (simp add: segment_mass_def p)
  have lin: "segment_mass (self\<lparr>DeLeva.mass := total\<rparr>) segment = Inr (Param.mass p * total)" for total
  proof -
    from e have "table_entry (sex (self\<lparr>DeLeva.mass := total\<rparr>)) segment = Some p"
      by simp
    then have "table_row (self\<lparr>DeLeva.mass := total\<rparr>) segment = Inr p"
      by (rule table_row_entry)
    then show ?thesis
      by (simp add: segment_mass_def)
  qed
  have "segment_length self segment =
              Inr (euclidean_distance
                     (biorbd_Model.markers (model self) (replicate (nbQ (model self)) 0) ! j)
                     (biorbd_Model.markers (model self) (replicate (nbQ (model self)) 0) ! i))
        \<and> segment_moment_of_inertia self segment =
              Inr (Param.mass p * DeLeva.mass self *
                     (euclidean_distance
                        (biorbd_Model.markers (model self) (replicate (nbQ (model self)) 0) ! j)
                        (biorbd_Model.markers (model self) (replicate (nbQ (model self)) 0) ! i)
                      * fst (radii p))\<^sup>2,
                   Param.mass p * DeLeva.mass self *
                     (euclidean_distance
                        (biorbd_Model.markers (model self) (replicate (nbQ (model self)) 0) ! j)
                        (biorbd_Model.markers (model self) (replicate (nbQ (model self)) 0) ! i)
                      * fst (snd (radii p)))\<^sup>2,
                   Param.mass p * DeLeva.mass self *
                     (euclidean_distance
                        (biorbd_Model.markers (model self) (replicate (nbQ (model self)) 0) ! j)
                        (biorbd_Model.markers (model self) (replicate (nbQ (model self)) 0) ! i)
                      * snd (snd (radii p)))\<^sup>2)"
    if ij: "list_index (markerNames (model self)) (fst (marker_names p)) = Some i
            \<and> list_index (markerNames (model self)) (snd (marker_names p)) = Some j
            \<and> i < length (biorbd_Model.markers (model self) (replicate (nbQ (model self)) 0))
            \<and> j < length (biorbd_Model.markers (model self) (replicate (nbQ (model self)) 0))"
    for i j
  proof -
    have pd: "proximal_distal self p =
        Inr (biorbd_Model.markers (model self) (replicate (nbQ (model self)) 0) ! i,
             biorbd_Model.markers (model self) (replicate (nbQ (model self)) 0) ! j)"
      using ij by (simp add: proximal_distal_def DeLeva_marker_names_def q_zero_def Let_def)
    have l: "segment_length self segment =
              Inr (euclidean_distance
                     (biorbd_Model.markers (model self) (replicate (nbQ (model self)) 0) ! j)
                     (biorbd_Model.markers (model self) (replicate (nbQ (model self)) 0) ! i))"
      by (simp add: segment_length_def p pd rnorm_rsub_distance)
    show ?thesis
      by (simp add: l segment_moment_of_inertia_def m p split: prod.split)
  qed
  with e m lin show ?thesis by blast
qed

text \<open>The female thigh: the entry of the table is the sixth row of the second half, with
  the mass fraction \<open>0.1478 * 2\<close> and the radii 0.369, 0.364, 0.162; PELVIS and KNEE are
  the third and fourth marker of the model, at the distance 1/2.  The male head, for
  comparison, has the fraction 0.0694.\<close>

theorem deleva_mass_and_inertia_witness:
  "(sex example_subject_female = ''male'' \<or> sex example_subject_female = ''female'')
   \<and> ''THIGH'' \<in> set tabulated_segments
   \<and> table_entry ''female'' ''THIGH'' =
       Some \<lparr>marker_names = (''PELVIS'', ''KNEE''), mass = 0.1478 * 2,
             center_of_mass = 0.3612, radii = (0.369, 0.364, 0.162)\<rparr>
   \<and> segment_mass example_subject_female ''THIGH'' = Inr (0.1478 * 2 * 60)
   \<and> segment_mass (example_subject_female\<lparr>DeLeva.mass := 120\<rparr>) ''THIGH'' = Inr (0.1478 * 2 * 120)
   \<and> segment_length example_subject_female ''THIGH'' = Inr (1 / 2)
   \<and> segment_moment_of_inertia example_subject_female ''THIGH'' =
       Inr (0.1478 * 2 * 60 * (1 / 2 * 0.369)\<^sup>2, 0.1478 * 2 * 60 * (1 / 2 * 0.364)\<^sup>2,
            0.1478 * 2 * 60 * (1 / 2 * 0.162)\<^sup>2)
   \<and> segment_mass example_subject ''HEAD'' = Inr (0.0694 * 70)
   \<and> segment_length example_subject ''HEAD'' = Inr 2
   \<and> segment_moment_of_inertia example_subject ''HEAD'' =
       Inr (0.0694 * 70 * (2 * 0.303)\<^sup>2, 0.0694 * 70 * (2 * 0.315)\<^sup>2, 0.0694 * 70 * (2 * 0.261)\<^sup>2)"
proof -
  let ?s = example_subject_female
  let ?ms = "biorbd_Model.markers (model ?s) (replicate (nbQ (model ?s)) 0)"
  have sx: "sex ?s = ''male'' \<or> sex ?s = ''female''"
    by (simp add: example_subject_female_def)
  have sg: "''THIGH'' \<in> set tabulated_segments"
    by (simp add: tabulated_segments_def)
  have row: "table_entry ''female'' ''THIGH'' =
      Some \<lparr>marker_names = (''PELVIS'', ''KNEE''), mass = 0.1478 * 2,
            center_of_mass = 0.3612, radii = (0.369, 0.364, 0.162)\<rparr>"
    by (simp add: table_entry_def table_def table_female_def)
  from deleva_mass_and_inertia [OF sx sg] obtain p where
    p: "table_entry (sex ?s) ''THIGH'' = Some p"
    and m: "segment_mass ?s ''THIGH'' = Inr (Param.mass p * DeLeva.mass ?s)"
    and lin: "\<And>total. segment_mass (?s\<lparr>DeLeva.mass := total\<rparr>) ''THIGH'' = Inr (Param.mass p * total)"
    and rest: "\<And>i j. list_index (markerNames (model ?s)) (fst (marker_names p)) = Some i
            \<and> list_index (markerNames (model ?s)) (snd (marker_names p)) = Some j
            \<and> i < length ?ms \<and> j < length ?ms
          \<Longrightarrow>
            segment_length ?s ''THIGH'' = Inr (euclidean_distance (?ms ! j) (?ms ! i))
            \<and> segment_moment_of_inertia ?s ''THIGH'' =
              Inr (Param.mass p * DeLeva.mass ?s *
                     (euclidean_distance (?ms ! j) (?ms ! i) * fst (radii p))\<^sup>2,
                   Param.mass p * DeLeva.mass ?s *
                     (euclidean_distance (?ms ! j) (?ms ! i) * fst (snd (radii p)))\<^sup>2,
                   Param.mass p * DeLeva.mass ?s *
                     (euclidean_distance (?ms ! j) (?ms ! i) * snd (snd (radii p)))\<^sup>2)"
    by blast
  have "sex ?s = ''female''"
    by (simp add: example_subject_female_def)
  with p row have pv: "p = \<lparr>marker_names = (''PELVIS'', ''KNEE''), mass = 0.1478 * 2,
           center_of_mass = 0.3612, radii = (0.369, 0.364, 0.162)\<rparr>"
    by simp
  have idx: "list_index (markerNames (model ?s)) (fst (marker_names p)) = Some 2
            \<and> list_index (markerNames (model ?s)) (snd (marker_names p)) = Some 3
            \<and> 2 < length ?ms \<and> 3 < length ?ms"
    by (simp add: pv example_subject_female_def)
  have d: "euclidean_distance (?ms ! 3) (?ms ! 2) = 1 / 2"
    by (simp add: example_subject_female_def euclidean_distance_def)
  have thigh: "segment_mass ?s ''THIGH'' = Inr (0.1478 * 2 * 60)
     \<and> segment_mass (?s\<lparr>DeLeva.mass := 120\<rparr>) ''THIGH'' = Inr (0.1478 * 2 * 120)
     \<and> segment_length ?s ''THIGH'' = Inr (1 / 2)
     \<and> segment_moment_of_inertia ?s ''THIGH'' =
       Inr (0.1478 * 2 * 60 * (1 / 2 * 0.369)\<^sup>2, 0.1478 * 2 * 60 * (1 / 2 * 0.364)\<^sup>2,
            0.1478 * 2 * 60 * (1 / 2 * 0.162)\<^sup>2)"
    using rest [OF idx] m lin [of 120]
    unfolding d by (simp add: pv example_subject_female_def)
  have head: "segment_mass example_subject ''HEAD'' = Inr (0.0694 * 70)
     \<and> segment_length example_subject ''HEAD'' = Inr 2
     \<and> segment_moment_of_inertia example_subject ''HEAD'' =
       Inr (0.0694 * 70 * (2 * 0.303)\<^sup>2, 0.0694 * 70 * (2 * 0.315)\<^sup>2, 0.0694 * 70 * (2 * 0.261)\<^sup>2)"
    by (simp add: segment_moment_of_inertia_def segment_mass_def segment_length_def
          proximal_distal_def DeLeva_marker_names_def q_zero_def table_row_def table_def
          table_male_def example_subject_def rnorm_def Let_def power2_eq_square)
  from sx sg row thigh head show ?thesis by blast
qed

subsection \<open>Vectors of reals\<close>

lemma rdot_self_nonneg: "0 \<le> rdot v v"
  by (cases v) simp

lemma rdot_self_zero: "rdot v v = 0 \<longleftrightarrow> v = RV 0 0 0"
proof (cases v)
  case (RV a b c)
  have "a * a + b * b + c * c = 0 \<longleftrightarrow> a = 0 \<and> b = 0 \<and> c = 0"
  proof
    assume z: "a * a + b * b + c * c = 0"
    have "0 \<le> a * a" "0 \<le> b * b" "0 \<le> c * c" by simp_all
    with z have "a * a = 0" "b * b = 0" "c * c = 0" by linarith+
    then show "a = 0 \<and> b = 0 \<and> c = 0" by simp
  qed simp
  with RV show ?thesis by simp
qed


lemma rnorm_square: "rnorm v * rnorm v = rdot v v"
  by (simp add: rnorm_def rdot_self_nonneg)






lemma rcross_anticommute: "rcross b a = rscale (- 1) (rcross a b)"
  by (cases a; cases b) (simp add: algebra_simps)









subsection \<open>From numbers to reals\<close>

lemma cross_fin3: "cross (fin3 a) (fin3 b) = fin3 (rcross a b)"
  by (cases a; cases b) simp

lemma norm3_V3: "norm3 (V3 (Fin x) (Fin y) (Fin z)) = Fin (rnorm (RV x y z))"
  using rdot_self_nonneg [of "RV x y z"] by (simp add: norm3_def rnorm_def not_less)

lemma norm3_fin3: "norm3 (fin3 a) = Fin (rnorm a)"
  by (cases a) (simp add: norm3_V3)


lemma normalize3_zero: "normalize3 (V3 (Fin 0) (Fin 0) (Fin 0)) = V3 NaN NaN NaN"
  by (simp add: normalize3_def norm3_def)

text \<open>A vector of numbers whose norm is zero is the zero vector, and dividing it by its
  norm gives nan in each component, as \<open>0.0 / 0.0\<close> does.\<close>

lemma norm3_zero: "norm3 v = Fin 0 \<Longrightarrow> v = fin3 (RV 0 0 0) \<and> normalize3 v = V3 NaN NaN NaN"
proof -
  assume z: "norm3 v = Fin 0"
  obtain a b c where v: "v = V3 a b c" by (cases v)
  from z v obtain x y z' where f: "a = Fin x" "b = Fin y" "c = Fin z'"
    by (cases a; cases b; cases c) (simp_all add: norm3_def)
  with v have vf: "v = fin3 (RV x y z')" by simp
  with z have "rnorm (RV x y z') = 0" by (simp add: norm3_V3)
  then have "rdot (RV x y z') (RV x y z') = 0"
    using rnorm_square [of "RV x y z'"] by simp
  then have "RV x y z' = RV 0 0 0" by (simp only: rdot_self_zero)
  with vf show ?thesis using normalize3_zero by simp
qed

subsection \<open>The columns of the matrix of from_markers\<close>


lemma frame_matrix_columns:
  "get_col (Name_value n)
     (frame_matrix pos (Name_value n) v1 (Name_value (next_axis n)) v2
        (Name_value (next_axis (next_axis n))) v3) = normalize3 v1"
  "get_col (Name_value (next_axis n))
     (frame_matrix pos (Name_value n) v1 (Name_value (next_axis n)) v2
        (Name_value (next_axis (next_axis n))) v3) = normalize3 v2"
  "get_col (Name_value (next_axis (next_axis n)))
     (frame_matrix pos (Name_value n) v1 (Name_value (next_axis n)) v2
        (Name_value (next_axis (next_axis n))) v3) = normalize3 v3"
  "get_col 3
     (frame_matrix pos (Name_value n) v1 (Name_value (next_axis n)) v2
        (Name_value (next_axis (next_axis n))) v3) = pos"
  "bottom_row
     (frame_matrix pos (Name_value n) v1 (Name_value (next_axis n)) v2
        (Name_value (next_axis (next_axis n))) v3) = V4 (Fin 0) (Fin 0) (Fin 0) (Fin 1)"
  by (cases n; cases pos; cases "normalize3 v1"; cases "normalize3 v2"; cases "normalize3 v3";
      simp add: frame_matrix_def zeros44_def)+

text \<open>The two axes in the order of the right-handed frame, and the matrix that
  \<open>from_markers\<close> returns for each of the two axes that can be kept.\<close>

lemma reorder_axes_cyclic:
  assumes "Axis.name a0 \<noteq> Axis.name a1"
  obtains f s where "reorder_axes a0 a1 = (f, s, next_axis (Axis.name s))"
    and "Axis.name s = next_axis (Axis.name f)"
    and "f = a0 \<and> s = a1 \<or> f = a1 \<and> s = a0"
  using reorder_axes_cases [OF assms] by blast

lemma RT_from_markers_keep_first:
  assumes ne: "Axis.name a0 \<noteq> Axis.name a1"
    and re: "reorder_axes a0 a1 = (f, s, next_axis (Axis.name s))"
    and fs: "Axis.name s = next_axis (Axis.name f)"
  shows "RT_from_markers og (a0, a1, Axis.name f) q =
           Inr (RT (frame_matrix (position og)
                     (Name_value (Axis.name f)) (axis_vector f)
                     (Name_value (next_axis (Axis.name f)))
                       (cross (cross (axis_vector f) (axis_vector s)) (axis_vector f))
                     (Name_value (next_axis (next_axis (Axis.name f))))
                       (cross (axis_vector f) (axis_vector s))) q False)"
  by (simp add: RT_from_markers_eq [OF ne re] fs)

lemma next_axis_neq: "next_axis n \<noteq> n"
  by (cases n) simp_all

lemma RT_from_markers_keep_second:
  assumes ne: "Axis.name a0 \<noteq> Axis.name a1"
    and re: "reorder_axes a0 a1 = (f, s, next_axis (Axis.name s))"
    and fs: "Axis.name s = next_axis (Axis.name f)"
  shows "RT_from_markers og (a0, a1, Axis.name s) q =
           Inr (RT (frame_matrix (position og)
                     (Name_value (Axis.name f))
                       (cross (axis_vector s) (cross (axis_vector f) (axis_vector s)))
                     (Name_value (next_axis (Axis.name f))) (axis_vector s)
                     (Name_value (next_axis (next_axis (Axis.name f))))
                       (cross (axis_vector f) (axis_vector s))) q False)"
  using next_axis_neq [of "Axis.name f"]
  by (simp add: RT_from_markers_eq [OF ne re] fs)











subsection \<open>The axis that is kept and the axis that is recomputed\<close>












lemma cross_zero_finite:
  assumes "cross v w = fin3 (RV 0 0 0)"
  shows "\<exists>a b. v = fin3 a \<and> w = fin3 b \<and> rcross a b = RV 0 0 0"
proof -
  obtain v0 v1 v2 where v: "v = V3 v0 v1 v2" by (cases v)
  obtain w0 w1 w2 where w: "w = V3 w0 w1 w2" by (cases w)
  from assms v w have fin: "\<not> isnan v0" "\<not> isnan v1" "\<not> isnan v2" "\<not> isnan w0" "\<not> isnan w1" "\<not> isnan w2"
    by (cases v0; cases v1; cases v2; cases w0; cases w1; cases w2; simp)+
  then obtain a0 a1 a2 b0 b1 b2 where
    "v0 = Fin a0" "v1 = Fin a1" "v2 = Fin a2" "w0 = Fin b0" "w1 = Fin b1" "w2 = Fin b2"
    by (cases v0; cases v1; cases v2; cases w0; cases w1; cases w2) simp_all
  with v w have vw: "v = fin3 (RV a0 a1 a2)" "w = fin3 (RV b0 b1 b2)" by simp_all
  with assms have "fin3 (rcross (RV a0 a1 a2) (RV b0 b1 b2)) = fin3 (RV 0 0 0)"
    by (simp only: cross_fin3)
  then have "rcross (RV a0 a1 a2) (RV b0 b1 b2) = RV 0 0 0"
    by simp
  with vw show ?thesis by blast
qed

lemma normalize3_cross_swap:
  assumes "norm3 (cross v w) = Fin 0"
  shows "normalize3 (cross v w) = V3 NaN NaN NaN" and "normalize3 (cross w v) = V3 NaN NaN NaN"
proof -
  show "normalize3 (cross v w) = V3 NaN NaN NaN"
    by (rule conjunct2 [OF norm3_zero [OF assms]])
  have "cross v w = fin3 (RV 0 0 0)"
    by (rule conjunct1 [OF norm3_zero [OF assms]])
  from cross_zero_finite [OF this] obtain a b where
    ab: "v = fin3 a" "w = fin3 b" "rcross a b = RV 0 0 0" by blast
  have "rcross b a = RV 0 0 0"
    using rcross_anticommute [of b a] ab(3) by simp
  then show "normalize3 (cross w v) = V3 NaN NaN NaN"
    by (simp add: ab cross_fin3 normalize3_zero)
qed

text \<open>
  C2, as the code has it.  \<open>from_markers\<close> compares no norm with anything and raises
  nothing for a vector without length: for every origin and every two axes with distinct
  names, and \<open>axis_to_keep\<close> the name of one of them, it returns an RT, whatever the
  vectors of the axes are.  When the cross product of the two vectors has norm zero (the
  markers are collinear or coincide), the column of the third axis of the RT returned is
  nan in each component.
\<close>

theorem from_markers_no_norm_check:
  assumes ne: "Axis.name a0 \<noteq> Axis.name a1"
    and keep: "keep = Axis.name a0 \<or> keep = Axis.name a1"
  shows "\<exists>r t. RT_from_markers og (a0, a1, keep) q = Inr r
           \<and> t \<noteq> Axis.name a0 \<and> t \<noteq> Axis.name a1
           \<and> (norm3 (cross (axis_vector a0) (axis_vector a1)) = Fin 0 \<longrightarrow>
                get_col (Name_value t) (RT.rt r) = V3 NaN NaN NaN)"
proof -
  from ne obtain f s where re: "reorder_axes a0 a1 = (f, s, next_axis (Axis.name s))"
    and fs: "Axis.name s = next_axis (Axis.name f)"
    and sw: "f = a0 \<and> s = a1 \<or> f = a1 \<and> s = a0"
    by (rule reorder_axes_cyclic)
  define t where "t = next_axis (next_axis (Axis.name f))"
  have t: "t \<noteq> Axis.name f" "t \<noteq> Axis.name s"
    unfolding t_def fs by (cases "Axis.name f"; simp)+
  from keep sw have "keep = Axis.name f \<or> keep = Axis.name s" by auto
  then obtain r where run: "RT_from_markers og (a0, a1, keep) q = Inr r"
    and third: "get_col (Name_value t) (RT.rt r) = normalize3 (cross (axis_vector f) (axis_vector s))"
    using RT_from_markers_keep_first [OF ne re fs, of og q]
      RT_from_markers_keep_second [OF ne re fs, of og q]
    by (auto simp: t_def frame_matrix_columns)
  have "get_col (Name_value t) (RT.rt r) = V3 NaN NaN NaN"
    if z: "norm3 (cross (axis_vector a0) (axis_vector a1)) = Fin 0"
    using sw normalize3_cross_swap [OF z] third by auto
  with run t sw show ?thesis by blast
qed

theorem from_markers_no_norm_check_witness:
  "Axis.name example_axis_no_length \<noteq> Axis.name example_axis_x
   \<and> X = Axis.name example_axis_x
   \<and> norm3 (cross (axis_vector example_axis_no_length) (axis_vector example_axis_x)) = Fin 0
   \<and> (\<exists>r. RT_from_markers example_marker_A (example_axis_no_length, example_axis_x, X) None = Inr r
          \<and> get_col 1 (RT.rt r) = V3 NaN NaN NaN)"
proof -
  have ne: "Axis.name example_axis_no_length \<noteq> Axis.name example_axis_x"
    and nz: "Axis.name example_axis_no_length = Z" and nx: "Axis.name example_axis_x = X"
    by (simp_all add: example_axis_no_length_def example_axis_x_def)
  have keep: "X = Axis.name example_axis_no_length \<or> X = Axis.name example_axis_x"
    by (simp add: nx)
  have z: "norm3 (cross (axis_vector example_axis_no_length) (axis_vector example_axis_x)) = Fin 0"
    by (simp add: axis_vector_def example_axis_no_length_def example_axis_x_def
          example_marker_A_def example_marker_B_def norm3_def)
  from from_markers_no_norm_check [OF ne keep, of example_marker_A None] z obtain r t where
    run: "RT_from_markers example_marker_A (example_axis_no_length, example_axis_x, X) None = Inr r"
    and t: "t \<noteq> Axis.name example_axis_no_length" "t \<noteq> Axis.name example_axis_x"
    and col: "get_col (Name_value t) (RT.rt r) = V3 NaN NaN NaN"
    by blast
  from t have "t = Y" by (cases t) (simp_all add: nz nx)
  with col have "get_col 1 (RT.rt r) = V3 NaN NaN NaN" by simp
  with ne nx z run show ?thesis by auto
qed

text \<open>The claim C2 says that \<open>from_markers\<close> fails when an axis vector has a norm below an
  epsilon.  The Z axis from the marker A to the marker A has norm zero; with the X axis
  along (0, 1, 0), keeping X, \<open>from_markers\<close> returns an RT, with nan in the columns
  of Y and Z.\<close>

theorem from_markers_degenerate_counterexample:
  "norm3 (axis_vector example_axis_no_length) = Fin 0
   \<and> RT_from_markers example_marker_A (example_axis_no_length, example_axis_x, X) None
       = Inr (RT (M4 (V4 (Fin 0) NaN NaN (Fin 1))
                     (V4 (Fin 1) NaN NaN (Fin 2))
                     (V4 (Fin 0) NaN NaN (Fin 3))
                     (V4 (Fin 0) (Fin 0) (Fin 0) (Fin 1))) None False)"
  by (simp add: run_defs axis_vector_def example_axis_no_length_def example_axis_x_def
        example_marker_A_def example_marker_B_def)

section \<open>Properties of the binding of a marker\<close>

lemma foldr_plus_Fin: "foldr (+) (map Fin rs) (Fin 0) = Fin (sum_list rs)"
  by (induction rs) simp_all

lemma foldr_plus_NaN: "NaN \<in> set xs \<Longrightarrow> foldr (+) xs (Fin 0) = NaN"
proof (induction xs)
  case Nil
  then show ?case by simp
next
  case (Cons x xs)
  show ?case
  proof (cases "x = NaN")
    case True
    then show ?thesis by simp
  next
    case False
    with Cons have "foldr (+) xs (Fin 0) = NaN" by simp
    then show ?thesis by (cases x) simp_all
  qed
qed

lemma mean_Fin: "rs \<noteq> [] \<Longrightarrow> mean (map Fin rs) = Fin (rmean rs)"
  by (simp add: mean_def rmean_def foldr_plus_Fin)

lemma mean_empty: "mean [] = NaN"
  by (simp add: mean_def)

lemma mean_NaN: "NaN \<in> set xs \<Longrightarrow> mean xs = NaN"
  by (simp add: mean_def foldr_plus_NaN)

lemma filter_not_isnan: "filter (\<lambda>x. \<not> isnan x) xs = map Fin (fin_values xs)"
  by (induction xs rule: fin_values.induct) simp_all

lemma nanmean_eq:
  "nanmean xs = (if fin_values xs = [] then NaN else Fin (rmean (fin_values xs)))"
  by (simp add: nanmean_def filter_not_isnan mean_Fin mean_empty)

lemma fin_values_all_nan: "list_all isnan xs \<Longrightarrow> fin_values xs = []"
  by (induction xs rule: fin_values.induct) simp_all

lemma fin_values_some: "list_ex (\<lambda>x. \<not> isnan x) xs \<Longrightarrow> fin_values xs \<noteq> []"
  by (induction xs rule: fin_values.induct) simp_all

text \<open>The indices of names that are all labels, and the samples they select.\<close>

lemma indices_in_c3d_labels:
  assumes "list_all (\<lambda>n. List.member (LABELS c) n) ns"
  shows "\<exists>js. indices_in_c3d c ns = Inr js
           \<and> list_all (\<lambda>j. j < length (LABELS c)) js
           \<and> (length (LABELS c) \<le> length (points c) \<longrightarrow>
                map (\<lambda>i. points c ! i) js = map (samples_of c) ns)"
  using assms
proof (induction ns)
  case Nil
  then show ?case by simp
next
  case (Cons n ns)
  then obtain js where js: "indices_in_c3d c ns = Inr js"
    "list_all (\<lambda>j. j < length (LABELS c)) js"
    "length (LABELS c) \<le> length (points c) \<longrightarrow> map (\<lambda>i. points c ! i) js = map (samples_of c) ns"
    by auto
  from Cons.prems have "n \<in> set (LABELS c)" by (simp add: member_set)
  from list_index_in_set [OF this] obtain i where i: "list_index (LABELS c) n = Some i" ..
  from list_index_Some [OF i] have "i < length (LABELS c)" by simp
  with i js show ?case by (simp add: samples_of_def)
qed

lemma to_meter_eq:
  "to_meter c (V4 x y z w) =
     V4 (x / Fin (unit_factor c)) (y / Fin (unit_factor c)) (z / Fin (unit_factor c)) (Fin 1)"
  by (cases "UNITS c") (simp_all add: to_meter_def unit_factor_def Let_def)

lemma unit_factor_nonzero: "unit_factor c \<noteq> 0"
  by (simp add: unit_factor_def split: list.split)

text \<open>The coordinate \<open>k\<close> of the mean over the selected markers, in the two cases.\<close>

lemma coordinate_missing:
  assumes "n \<in> set ns" and "list_all (\<lambda>s. isnan (get4 k s)) (samples_of c n)"
  shows "mean (map (\<lambda>samples. nanmean (map (get4 k) samples)) (map (samples_of c) ns)) = NaN"
proof -
  have "list_all isnan (map (get4 k) (samples_of c n))"
    using assms(2) by (simp add: list_all_iff)
  then have "nanmean (map (get4 k) (samples_of c n)) = NaN"
    by (simp add: nanmean_eq fin_values_all_nan)
  with assms(1) have "NaN \<in> set (map (\<lambda>samples. nanmean (map (get4 k) samples)) (map (samples_of c) ns))"
    by force
  then show ?thesis by (rule mean_NaN)
qed

lemma coordinate_present:
  assumes ne: "ns \<noteq> []"
    and pr: "list_all (\<lambda>n. list_ex (\<lambda>s. \<not> isnan (get4 k s)) (samples_of c n)) ns"
  shows "mean (map (\<lambda>samples. nanmean (map (get4 k) samples)) (map (samples_of c) ns))
           = Fin (rmean (map (\<lambda>n. rmean (fin_values (map (get4 k) (samples_of c n)))) ns))"
proof -
  have eq: "map (\<lambda>samples. nanmean (map (get4 k) samples)) (map (samples_of c) ns)
          = map Fin (map (\<lambda>n. rmean (fin_values (map (get4 k) (samples_of c n)))) ns)"
    using pr
  proof (induction ns)
    case Nil
    then show ?case by simp
  next
    case (Cons n ns)
    from Cons.prems have "list_ex (\<lambda>x. \<not> isnan x) (map (get4 k) (samples_of c n))"
      by (simp add: list_ex_iff)
    then have "fin_values (map (get4 k) (samples_of c n)) \<noteq> []"
      by (rule fin_values_some)
    with Cons show ?case by (simp add: nanmean_eq)
  qed
  have "map (\<lambda>n. rmean (fin_values (map (get4 k) (samples_of c n)))) ns \<noteq> []"
    using ne by simp
  then show ?thesis
    unfolding eq by (rule mean_Fin)
qed

lemma Marker_from_data_selected:
  assumes labels: "list_all (\<lambda>n. List.member (LABELS c) n) ns"
    and shape: "length (LABELS c) \<le> length (points c)"
  shows "Marker_from_data c nm ns parent q t a =
     (if isnan_any (to_meter c (mean_of_markers (map (samples_of c) ns)))
      then Inl (RuntimeError_markers_not_present ns)
      else Inr \<lparr>Marker.name = nm, parent_name = parent,
                position = first3 (matvec (case q of Some p \<Rightarrow> RT.rt (RT_transpose p)
                                            | None \<Rightarrow> identity4)
                                     (to_meter c (mean_of_markers (map (samples_of c) ns)))),
                is_technical = t, is_anatomical = a\<rparr>)"
proof -
  from indices_in_c3d_labels [OF labels] shape obtain js where
    js: "indices_in_c3d c ns = Inr js" and lt: "list_all (\<lambda>j. j < length (LABELS c)) js"
    and sel: "map (\<lambda>i. points c ! i) js = map (samples_of c) ns"
    by blast
  from lt shape have "\<not> list_ex (\<lambda>i. i \<ge> length (points c)) js"
    by (auto simp: list_all_iff list_ex_iff)
  then show ?thesis
    by (simp add: Marker_from_data_def ezc3d_found_def js sel Let_def RT_matvec_def
          split: option.split)
qed

lemma not_all_nan: "\<not> list_all (\<lambda>s. isnan (get4 k s)) xs \<Longrightarrow> list_ex (\<lambda>s. \<not> isnan (get4 k s)) xs"
  by (simp add: list_all_iff list_ex_iff)

text \<open>
  C8.  Let every requested name be a label of the trial, each label with its column of
  samples.  \<open>to_marker\<close> raises the \<open>RuntimeError\<close> whose message holds the requested names
  exactly when no marker is requested or one of the requested markers has a coordinate
  among x, y, z that is nan in all its samples.  In every other case it returns the Marker
  with the name, parent name and flags of the generic marker, whose position is the mean
  position in metres (in each coordinate the mean over the markers of the mean over the
  samples in which that coordinate is not nan, a number), multiplied by the transposed
  parent frame when a parent is given and by the identity when none is.
\<close>

theorem to_marker_missing_or_mean:
  assumes labels: "list_all (\<lambda>n. List.member (LABELS c) n) (from_markers mk)"
    and shape: "length (LABELS c) \<le> length (points c)"
  shows "to_marker mk c q =
           (if from_markers mk = [] \<or> list_ex (marker_missing c) (from_markers mk)
            then Inl (RuntimeError_markers_not_present (from_markers mk))
            else Inr \<lparr>Marker.name = MarkerGeneric.name mk,
                   parent_name = MarkerGeneric.parent_name mk,
                   position =
                     first3 (matvec (case q of Some p \<Rightarrow> RT.rt (RT_transpose p)
                                      | None \<Rightarrow> identity4)
                               (V4 (Fin (mean_coordinate c (from_markers mk) 0))
                                   (Fin (mean_coordinate c (from_markers mk) 1))
                                   (Fin (mean_coordinate c (from_markers mk) 2))
                                   (Fin 1))),
                   is_technical = MarkerGeneric.is_technical mk,
                   is_anatomical = MarkerGeneric.is_anatomical mk\<rparr>)"
proof -
  define ns where "ns = from_markers mk"
  define m where "m k = mean (map (\<lambda>samples. nanmean (map (get4 k) samples)) (map (samples_of c) ns))"
    for k
  have mm: "mean_of_markers (map (samples_of c) ns) = V4 (m 0) (m 1) (m 2) (m 3)"
    by (simp add: mean_of_markers_def m_def)
  note sel = Marker_from_data_selected [OF labels shape]
  have raises: "to_marker mk c q = Inl (RuntimeError_markers_not_present (from_markers mk))"
    if "m 0 = NaN \<or> m 1 = NaN \<or> m 2 = NaN"
  proof -
    from that have "isnan_any (to_meter c (mean_of_markers (map (samples_of c) ns)))"
      by (auto simp: mm to_meter_eq)
    then show ?thesis
      by (simp add: to_marker_def sel ns_def)
  qed
  show ?thesis
  proof (cases "ns = []")
    case True
    then have "m 0 = NaN" by (simp add: m_def mean_empty)
    with raises True show ?thesis by (simp add: ns_def)
  next
    case ne: False
    show ?thesis
    proof (cases "list_ex (marker_missing c) ns")
      case True
      then obtain n where n: "n \<in> set ns" and ab: "marker_missing c n"
        by (auto simp: list_ex_iff)
      from ab have "m 0 = NaN \<or> m 1 = NaN \<or> m 2 = NaN"
        unfolding marker_missing_def coordinate_absent_def m_def
        using coordinate_missing [OF n] by blast
      with raises True show ?thesis by (simp add: ns_def)
    next
      case False
      then have none: "\<And>n k. n \<in> set ns \<Longrightarrow> k \<in> {0, 1, 2}
                  \<Longrightarrow> \<not> list_all (\<lambda>s. isnan (get4 k s)) (samples_of c n)"
        by (auto simp: list_ex_iff marker_missing_def coordinate_absent_def)
      have pres: "list_all (\<lambda>n. list_ex (\<lambda>s. \<not> isnan (get4 k s)) (samples_of c n)) ns"
        if "k \<in> {0, 1, 2}" for k
        unfolding list_all_iff
      proof
        fix n assume "n \<in> set ns"
        from none [OF this that] show "list_ex (\<lambda>s. \<not> isnan (get4 k s)) (samples_of c n)"
          by (rule not_all_nan)
      qed
      have coord: "m k = Fin (rmean (map (\<lambda>n. rmean (fin_values (map (get4 k) (samples_of c n)))) ns))"
        if "k \<in> {0, 1, 2}" for k
        unfolding m_def by (rule coordinate_present [OF ne pres [OF that]])
      have pos: "to_meter c (mean_of_markers (map (samples_of c) ns)) =
                 V4 (Fin (mean_coordinate c ns 0)) (Fin (mean_coordinate c ns 1))
                    (Fin (mean_coordinate c ns 2)) (Fin 1)"
        using unit_factor_nonzero [of c] coord [of 0] coord [of 1] coord [of 2]
        by (simp add: mm to_meter_eq mean_coordinate_def del: One_nat_def)
      from pos ne False show ?thesis
        by (simp add: to_marker_def sel ns_def)
    qed
  qed
qed

text \<open>The markers B and C of the trial are seen in every frame; GONE is seen in none; Q of
  the second trial has each coordinate in one frame, never all three in the same frame.\<close>

theorem to_marker_missing_or_mean_witness:
  "list_all (\<lambda>n. List.member (LABELS example_trial) n) [''B'', ''C'']
   \<and> list_all (\<lambda>n. List.member (LABELS example_trial) n) [''A'', ''GONE'']
   \<and> list_all (\<lambda>n. List.member (LABELS example_trial_partial) n) [''Q'']
   \<and> length (LABELS example_trial) \<le> length (points example_trial)
   \<and> length (LABELS example_trial_partial) \<le> length (points example_trial_partial)
   \<and> \<not> list_ex (marker_missing example_trial) [''B'', ''C'']
   \<and> list_ex (marker_missing example_trial) [''A'', ''GONE'']
   \<and> \<not> list_ex (marker_missing example_trial_partial) [''Q'']
   \<and> to_marker \<lparr>MarkerGeneric.name = ''KNEE'', from_markers = [''B'', ''C''],
                  parent_name = ''THIGH'', is_technical = True, is_anatomical = False\<rparr>
        example_trial None
       = Inr \<lparr>Marker.name = ''KNEE'', parent_name = ''THIGH'',
              position = V3 (Fin (1 / 2)) (Fin 3) (Fin 3),
              is_technical = True, is_anatomical = False\<rparr>
   \<and> to_marker \<lparr>MarkerGeneric.name = ''KNEE'', from_markers = [''B'', ''C''],
                  parent_name = ''THIGH'', is_technical = True, is_anatomical = False\<rparr>
        example_trial
        (Some (RT (homog (RV 0 1 0) (RV (- 1) 0 0) (RV 0 0 1) (RV 1 2 3)) None False))
       = Inr \<lparr>Marker.name = ''KNEE'', parent_name = ''THIGH'',
              position = V3 (Fin 1) (Fin (1 / 2)) (Fin 0),
              is_technical = True, is_anatomical = False\<rparr>
   \<and> to_marker \<lparr>MarkerGeneric.name = ''M'', from_markers = [''A'', ''GONE''],
                  parent_name = ''THIGH'', is_technical = True, is_anatomical = False\<rparr>
        example_trial None
       = Inl (RuntimeError_markers_not_present [''A'', ''GONE''])
   \<and> to_marker \<lparr>MarkerGeneric.name = ''M'', from_markers = [''Q''],
                  parent_name = ''THIGH'', is_technical = True, is_anatomical = False\<rparr>
        example_trial_partial None
       = Inr \<lparr>Marker.name = ''M'', parent_name = ''THIGH'',
              position = V3 (Fin 1) (Fin 1) (Fin 1),
              is_technical = True, is_anatomical = False\<rparr>"
proof -
  define knee where "knee = \<lparr>MarkerGeneric.name = ''KNEE'', from_markers = [''B'', ''C''],
                  parent_name = ''THIGH'', is_technical = True, is_anatomical = False\<rparr>"
  define gone where "gone = \<lparr>MarkerGeneric.name = ''M'', from_markers = [''A'', ''GONE''],
                  parent_name = ''THIGH'', is_technical = True, is_anatomical = False\<rparr>"
  define part where "part = \<lparr>MarkerGeneric.name = ''M'', from_markers = [''Q''],
                  parent_name = ''THIGH'', is_technical = True, is_anatomical = False\<rparr>"
  have l1: "list_all (\<lambda>n. List.member (LABELS example_trial) n) (from_markers knee)"
    and l2: "list_all (\<lambda>n. List.member (LABELS example_trial) n) (from_markers gone)"
    and l3: "list_all (\<lambda>n. List.member (LABELS example_trial_partial) n) (from_markers part)"
    by (simp_all add: knee_def gone_def part_def example_trial_def example_trial_partial_def
          member_set)
  have sh: "length (LABELS example_trial) \<le> length (points example_trial)"
    and sh3: "length (LABELS example_trial_partial) \<le> length (points example_trial_partial)"
    by (simp_all add: example_trial_def example_trial_partial_def)
  have pr: "\<not> (from_markers knee = [] \<or> list_ex (marker_missing example_trial) (from_markers knee))"
    by (simp add: knee_def marker_missing_def coordinate_absent_def samples_of_def example_trial_def)
  have ab: "from_markers gone = [] \<or> list_ex (marker_missing example_trial) (from_markers gone)"
    by (simp add: gone_def marker_missing_def coordinate_absent_def samples_of_def example_trial_def)
  have pr3: "\<not> (from_markers part = []
                \<or> list_ex (marker_missing example_trial_partial) (from_markers part))"
    by (simp add: part_def marker_missing_def coordinate_absent_def samples_of_def
          example_trial_partial_def)
  have mc: "mean_coordinate example_trial [''B'', ''C''] 0 = 1 / 2"
    "mean_coordinate example_trial [''B'', ''C''] (Suc 0) = 3"
    "mean_coordinate example_trial [''B'', ''C''] 2 = 3"
    by (simp_all add: mean_coordinate_def rmean_def samples_of_def unit_factor_def
          example_trial_def)
  have mc3: "mean_coordinate example_trial_partial [''Q''] 0 = 1"
    "mean_coordinate example_trial_partial [''Q''] (Suc 0) = 1"
    "mean_coordinate example_trial_partial [''Q''] 2 = 1"
    by (simp_all add: mean_coordinate_def rmean_def samples_of_def unit_factor_def
          example_trial_partial_def)
  define v where "v = V4 (Fin (mean_coordinate example_trial (from_markers knee) 0))
                        (Fin (mean_coordinate example_trial (from_markers knee) 1))
                        (Fin (mean_coordinate example_trial (from_markers knee) 2)) (Fin 1)"
  have v: "v = V4 (Fin (1 / 2)) (Fin 3) (Fin 3) (Fin 1)"
    by (simp add: v_def knee_def mc)
  define w where "w = V4 (Fin (mean_coordinate example_trial_partial (from_markers part) 0))
                        (Fin (mean_coordinate example_trial_partial (from_markers part) 1))
                        (Fin (mean_coordinate example_trial_partial (from_markers part) 2)) (Fin 1)"
  have w: "w = V4 (Fin 1) (Fin 1) (Fin 1) (Fin 1)"
    by (simp add: w_def part_def mc3)
  from to_marker_missing_or_mean [OF l1 sh, of None] pr
  have "to_marker knee example_trial None
       = Inr \<lparr>Marker.name = MarkerGeneric.name knee,
              parent_name = MarkerGeneric.parent_name knee,
              position = first3 (matvec identity4 v),
              is_technical = MarkerGeneric.is_technical knee,
              is_anatomical = MarkerGeneric.is_anatomical knee\<rparr>"
    unfolding v_def by simp
  then have k1: "to_marker knee example_trial None
       = Inr \<lparr>Marker.name = ''KNEE'', parent_name = ''THIGH'',
              position = V3 (Fin (1 / 2)) (Fin 3) (Fin 3),
              is_technical = True, is_anatomical = False\<rparr>"
    by (simp add: v identity4_def knee_def)
  from to_marker_missing_or_mean [OF l1 sh,
         of "Some (RT (homog (RV 0 1 0) (RV (- 1) 0 0) (RV 0 0 1) (RV 1 2 3)) None False)"] pr
  have "to_marker knee example_trial
        (Some (RT (homog (RV 0 1 0) (RV (- 1) 0 0) (RV 0 0 1) (RV 1 2 3)) None False))
       = Inr \<lparr>Marker.name = MarkerGeneric.name knee,
              parent_name = MarkerGeneric.parent_name knee,
              position = first3 (matvec (RT.rt (RT_transpose
                (RT (homog (RV 0 1 0) (RV (- 1) 0 0) (RV 0 0 1) (RV 1 2 3)) None False))) v),
              is_technical = MarkerGeneric.is_technical knee,
              is_anatomical = MarkerGeneric.is_anatomical knee\<rparr>"
    unfolding v_def by simp
  then have k2: "to_marker knee example_trial
        (Some (RT (homog (RV 0 1 0) (RV (- 1) 0 0) (RV 0 0 1) (RV 1 2 3)) None False))
       = Inr \<lparr>Marker.name = ''KNEE'', parent_name = ''THIGH'',
              position = V3 (Fin 1) (Fin (1 / 2)) (Fin 0),
              is_technical = True, is_anatomical = False\<rparr>"
    by (simp add: v knee_def RT_transpose_def RT_copy_def Let_def)
  from to_marker_missing_or_mean [OF l2 sh, of None] ab
  have "to_marker gone example_trial None
       = Inl (RuntimeError_markers_not_present (from_markers gone))"
    by simp
  then have g: "to_marker gone example_trial None
       = Inl (RuntimeError_markers_not_present [''A'', ''GONE''])"
    by (simp add: gone_def)
  from to_marker_missing_or_mean [OF l3 sh3, of None] pr3
  have "to_marker part example_trial_partial None
       = Inr \<lparr>Marker.name = MarkerGeneric.name part,
              parent_name = MarkerGeneric.parent_name part,
              position = first3 (matvec identity4 w),
              is_technical = MarkerGeneric.is_technical part,
              is_anatomical = MarkerGeneric.is_anatomical part\<rparr>"
    unfolding w_def by simp
  then have q1: "to_marker part example_trial_partial None
       = Inr \<lparr>Marker.name = ''M'', parent_name = ''THIGH'',
              position = V3 (Fin 1) (Fin 1) (Fin 1),
              is_technical = True, is_anatomical = False\<rparr>"
    by (simp add: w identity4_def part_def)
  from pr have pr': "\<not> list_ex (marker_missing example_trial) [''B'', ''C'']"
    by (simp add: knee_def)
  from pr3 have pr3': "\<not> list_ex (marker_missing example_trial_partial) [''Q'']"
    by (simp add: part_def)
  from ab have ab': "list_ex (marker_missing example_trial) [''A'', ''GONE'']"
    by (simp add: gone_def)
  from l1 l2 l3 sh sh3 pr' ab' pr3' k1 k2 g q1 show ?thesis
    unfolding knee_def gone_def part_def by simp
qed

text \<open>The claim C8 has two cases, a marker that is nan across all samples and a marker
  with a sample that is not nan, and the code decides by coordinate.  Whichever of the
  two a sample with some coordinates is counted as, one of the markers P and Q goes
  against the claim.  P has y and z in every sample, so it is not absent in all samples,
  and \<open>to_marker\<close> raises because x is never seen.  Q has no sample with x, y and z
  together, so none of its samples is present, and \<open>to_marker\<close> returns the position
  (1, 1, 1) made of the coordinates seen in different samples.\<close>

theorem to_marker_partly_nan_counterexample:
  "samples_of example_trial_partial ''P''
     = [V4 NaN (Fin 1) (Fin 1) (Fin 1), V4 NaN (Fin 3) (Fin 3) (Fin 1)]
   \<and> \<not> absent_throughout example_trial_partial ''P''
   \<and> to_marker \<lparr>MarkerGeneric.name = ''M'', from_markers = [''P''],
                  parent_name = ''THIGH'', is_technical = True, is_anatomical = False\<rparr>
        example_trial_partial None
       = Inl (RuntimeError_markers_not_present [''P''])
   \<and> samples_of example_trial_partial ''Q''
     = [V4 NaN (Fin 1) (Fin 1) (Fin 1), V4 (Fin 1) NaN NaN (Fin 1)]
   \<and> \<not> present_once example_trial_partial ''Q''
   \<and> to_marker \<lparr>MarkerGeneric.name = ''M'', from_markers = [''Q''],
                  parent_name = ''THIGH'', is_technical = True, is_anatomical = False\<rparr>
        example_trial_partial None
       = Inr \<lparr>Marker.name = ''M'', parent_name = ''THIGH'',
              position = V3 (Fin 1) (Fin 1) (Fin 1),
              is_technical = True, is_anatomical = False\<rparr>"
  by (simp add: samples_of_def absent_throughout_def present_once_def example_trial_partial_def
        to_marker_def Marker_from_data_def ezc3d_found_def mean_of_markers_def mean_def
        nanmean_def to_meter_def identity4_def Let_def)

end
